theory Spec2Isabelle
  imports Main
begin

section \<open>Data model of the survey data processor\<close>

text \<open>
  The notebook \<^verbatim>\<open>survey_data_processor.ipynb\<close> works on pandas DataFrames. A frame is
  modelled by its ordered column labels and its rows; every row holds one cell per
  column label (frames are rectangular). A cell is a missing value, a text, a number or a
  timestamp. Printing is not modelled.
\<close>

datatype cell = NaN | Text string | Num int | Time nat

record dataframe =
  columns :: "string list"
  rows :: "cell list list"

text \<open>
  \<^verbatim>\<open>ALL_COLUMNS\<close> is a Python dict from column name to column type. The notebook uses
  it but does not define it, so it is a parameter of every function below. A dict is
  modelled by its items in insertion order; the keys of a dict are distinct.
  \<^verbatim>\<open>d.get(k)\<close> is \<open>map_of d k\<close>, \<^verbatim>\<open>d.keys()\<close> is \<open>map fst d\<close>.
\<close>

type_synonym taxonomy = "(string \<times> string) list"

subsection \<open>validate_columns\<close>

text \<open>
  \<^verbatim>\<open>
  auto_added_columns = {'Survey_Name', 'Processed_Date'}
  df_columns = set(df.columns) - auto_added_columns
  allowed_columns = set(all_columns_dict.keys())
  invalid_columns = df_columns - allowed_columns
  if invalid_columns: return False, invalid_columns
  else: return True, set()
  \<close>
\<close>

definition validate_columns :: "dataframe \<Rightarrow> string \<Rightarrow> taxonomy \<Rightarrow> bool \<times> string set" where
  "validate_columns df survey_name all_columns_dict =
     (let auto_added_columns = {''Survey_Name'', ''Processed_Date''};
          df_columns = set (columns df) - auto_added_columns;
          allowed_columns = set (map fst all_columns_dict);
          invalid_columns = df_columns - allowed_columns
      in if invalid_columns \<noteq> {} then (False, invalid_columns) else (True, {}))"

subsection \<open>Frame operations used by the notebook\<close>

text \<open>
  \<^verbatim>\<open>df[name] = value\<close> overwrites every cell of the column \<open>name\<close> when the frame has
  it and appends a new last column otherwise.
\<close>

definition set_column :: "dataframe \<Rightarrow> string \<Rightarrow> cell \<Rightarrow> dataframe" where
  "set_column df name v =
     (if name \<in> set (columns df)
      then df\<lparr>rows := map (\<lambda>r. map (\<lambda>(c, x). if c = name then v else x) (zip (columns df) r)) (rows df)\<rparr>
      else df\<lparr>columns := columns df @ [name], rows := map (\<lambda>r. r @ [v]) (rows df)\<rparr>)"

text \<open>
  \<^verbatim>\<open>df[labels]\<close> with a list of labels selects, label by label, the columns carrying
  that label and raises \<^verbatim>\<open>KeyError\<close> when a label is not a column of the frame.
\<close>

definition label_positions :: "dataframe \<Rightarrow> string \<Rightarrow> nat list" where
  "label_positions df c = filter (\<lambda>i. columns df ! i = c) [0..<length (columns df)]"

definition select_columns :: "dataframe \<Rightarrow> string list \<Rightarrow> string + dataframe" where
  "select_columns df labels =
     (if \<exists>c \<in> set labels. c \<notin> set (columns df) then Inl ''KeyError''
      else (let idx = concat (map (label_positions df) labels)
            in Inr \<lparr>columns = map (\<lambda>i. columns df ! i) idx,
                     rows = map (\<lambda>r. map (\<lambda>i. r ! i) idx) (rows df)\<rparr>))"

text \<open>
  \<^verbatim>\<open>pd.concat(frames, ignore_index=True, sort=False)\<close>. On an empty list pandas raises
  \<^verbatim>\<open>ValueError\<close>. When every frame has the columns of the first one, label by label,
  nothing is reindexed: the result has these columns, repeated labels included, and the
  rows of the frames one frame after the other. Otherwise every frame is reindexed to
  the union of the columns, in order of first appearance, which pandas refuses with
  \<^verbatim>\<open>InvalidIndexError\<close> when a frame repeats a label; a cell of a column that a frame
  does not have is missing.
\<close>

definition union_columns :: "dataframe list \<Rightarrow> string list" where
  "union_columns frames = rev (remdups (rev (concat (map columns frames))))"

definition reindex_row :: "string list \<Rightarrow> dataframe \<Rightarrow> cell list \<Rightarrow> cell list" where
  "reindex_row cols df r =
     map (\<lambda>c. case map_of (zip (columns df) r) c of Some x \<Rightarrow> x | None \<Rightarrow> NaN) cols"

definition pd_concat :: "dataframe list \<Rightarrow> string + dataframe" where
  "pd_concat frames =
     (case frames of
        [] \<Rightarrow> Inl ''No objects to concatenate''
      | first # others \<Rightarrow>
          if \<forall>df \<in> set others. columns df = columns first
          then Inr \<lparr>columns = columns first, rows = concat (map rows frames)\<rparr>
          else if \<exists>df \<in> set frames. \<not> distinct (columns df)
          then Inl ''Reindexing only valid with uniquely valued Index objects''
          else Inr \<lparr>columns = union_columns frames,
                    rows = concat (map (\<lambda>df. map (reindex_row (union_columns frames) df) (rows df))
                                       frames)\<rparr>)"

subsection \<open>extract_ltr_and_drivers\<close>

text \<open>
  \<^verbatim>\<open>
  ltr_columns = [col for col, col_type in all_columns_dict.items()
                 if col_type == "LTR" and col in df.columns]
  driver_columns = [... if col_type == "DRIVERS" and col in df.columns]
  standard_columns = [... if col_type == "STANDARD" and col in df.columns]
  auto_added_columns = ['Survey_Name', 'Processed_Date']
  available_auto_added = [col for col in auto_added_columns if col in df.columns]
  relevant_columns = list(set(standard_columns + ltr_columns + driver_columns + available_auto_added))
  if len(ltr_columns) > 0 or len(driver_columns) > 0:
      subset_df = df[relevant_columns].copy()
      return subset_df
  else:
      return None
  \<close>
  The order in which Python iterates over a set is not fixed by the language, so
  \<^verbatim>\<open>list(set(xs))\<close> is the parameter \<open>list_of_set\<close>.
\<close>

definition columns_of_type :: "taxonomy \<Rightarrow> string \<Rightarrow> dataframe \<Rightarrow> string list" where
  "columns_of_type all_columns_dict ty df =
     map fst (filter (\<lambda>(col, col_type). col_type = ty \<and> col \<in> set (columns df)) all_columns_dict)"

definition extract_ltr_and_drivers ::
  "(string list \<Rightarrow> string list) \<Rightarrow> dataframe \<Rightarrow> string \<Rightarrow> taxonomy \<Rightarrow> string + dataframe option" where
  "extract_ltr_and_drivers list_of_set df survey_name all_columns_dict =
     (let ltr_columns = columns_of_type all_columns_dict ''LTR'' df;
          driver_columns = columns_of_type all_columns_dict ''DRIVERS'' df;
          standard_columns = columns_of_type all_columns_dict ''STANDARD'' df;
          auto_added_columns = [''Survey_Name'', ''Processed_Date''];
          available_auto_added = filter (\<lambda>col. col \<in> set (columns df)) auto_added_columns;
          relevant_columns =
            list_of_set (standard_columns @ ltr_columns @ driver_columns @ available_auto_added)
      in if length ltr_columns > 0 \<or> length driver_columns > 0
         then (case select_columns df relevant_columns of
                 Inl e \<Rightarrow> Inl e
               | Inr subset_df \<Rightarrow> Inr (Some subset_df))
         else Inr None)"

subsection \<open>The collaborators of the processing loop\<close>

text \<open>
  The loop calls three methods of \<^verbatim>\<open>SimpleSurveyMapper\<close>, a class of the module
  \<^verbatim>\<open>shared.transformations\<close> whose code is not part of the sources at hand. They are
  parameters: each may raise (\<open>Inl\<close> carries \<^verbatim>\<open>str(e)\<close>) or return.
\<close>

record mapper =
  get_survey_mappings :: "string \<Rightarrow> string + (string \<times> string) list"
  transform_survey :: "dataframe \<Rightarrow> string \<Rightarrow> string + dataframe"
  validate_survey_config :: "string \<Rightarrow> dataframe \<Rightarrow> string + (string list \<times> string list)"

text \<open>
  What the notebook reads from outside: the files under \<^verbatim>\<open>SQL_QUERIES_DIR\<close>, the
  database behind \<^verbatim>\<open>pd.read_sql_query\<close>, the clock, the iteration order of sets, and
  whether the name \<^verbatim>\<open>extract_ltr_and_drivers\<close> is bound when the loop runs: the cell
  that defines the function comes after the cell with the loop.
\<close>

record env =
  sql_files :: "string \<Rightarrow> string option"
  read_sql_query :: "string \<Rightarrow> string + dataframe"
  now :: nat
  list_of_set :: "string list \<Rightarrow> string list"
  extract_defined :: bool

subsection \<open>load_sql_query and execute_query_and_load_data\<close>

definition whitespace :: "char \<Rightarrow> bool" where
  "whitespace c =
     (c \<in> set [CHR 0x09, CHR 0x0A, CHR 0x0B, CHR 0x0C, CHR 0x0D,
               CHR 0x1C, CHR 0x1D, CHR 0x1E, CHR 0x1F, CHR '' ''])"

definition strip :: "string \<Rightarrow> string" where
  "strip s = rev (dropWhile whitespace (rev (dropWhile whitespace s)))"

text \<open>\<^verbatim>\<open>os.path.join\<close> on POSIX paths, for two components and for three.\<close>

definition path_join :: "string \<Rightarrow> string \<Rightarrow> string" where
  "path_join a b =
     (if b \<noteq> [] \<and> hd b = CHR ''/'' then b
      else if a = [] \<or> last a = CHR ''/'' then a @ b
      else a @ ''/'' @ b)"

definition SQL_QUERIES_DIR :: string where
  "SQL_QUERIES_DIR = ''../sql_queries/''"

text \<open>
  \<^verbatim>\<open>
  sql_file_path = os.path.join(SQL_QUERIES_DIR, survey_name, "get_data.sql")
  if not os.path.exists(sql_file_path):
      raise FileNotFoundError(f"SQL file not found: {sql_file_path}")
  with open(sql_file_path, 'r', encoding='utf-8') as file:
      query = file.read().strip()
  return query
  \<close>
\<close>

definition load_sql_query :: "env \<Rightarrow> string \<Rightarrow> string + string" where
  "load_sql_query e survey_name =
     (let sql_file_path = path_join (path_join SQL_QUERIES_DIR survey_name) ''get_data.sql''
      in case sql_files e sql_file_path of
           None \<Rightarrow> Inl (''SQL file not found: '' @ sql_file_path)
         | Some text \<Rightarrow> Inr (strip text))"

text \<open>
  \<^verbatim>\<open>
  query = load_sql_query(survey_name)
  ...
  try:
      df = pd.read_sql_query(query, conn)
      is_valid, invalid_cols = validate_columns(df, survey_name, ALL_COLUMNS)
      if not is_valid:
          return None
      df['Survey_Name'] = survey_name
      return df
  except Exception as e:
      return None
  \<close>
  The query is loaded before the \<^verbatim>\<open>try\<close>, so its exception leaves the function.
\<close>

definition execute_query_and_load_data ::
  "env \<Rightarrow> taxonomy \<Rightarrow> string \<Rightarrow> string + dataframe option" where
  "execute_query_and_load_data e ALL_COLUMNS survey_name =
     (case load_sql_query e survey_name of
        Inl err \<Rightarrow> Inl err
      | Inr query \<Rightarrow>
          (case read_sql_query e query of
             Inl err \<Rightarrow> Inr None
           | Inr df \<Rightarrow>
               (let (is_valid, invalid_cols) = validate_columns df survey_name ALL_COLUMNS
                in if \<not> is_valid then Inr None
                   else Inr (Some (set_column df ''Survey_Name'' (Text survey_name))))))"

subsection \<open>The processing loop\<close>

record summary_row =
  Survey_Name :: string
  Records_Processed :: nat
  Columns_Count :: nat
  Columns_Transformed :: nat
  Has_LTR_Data :: bool
  Has_Driver_Data :: bool
  Processing_Status :: string
  Processed_Time :: nat

text \<open>The three lists that the loop appends to.\<close>

record pstate =
  all_survey_data :: "dataframe list"
  nps_driver_data :: "dataframe list"
  processing_summary :: "summary_row list"

definition initial_state :: pstate where
  "initial_state = \<lparr>all_survey_data = [], nps_driver_data = [], processing_summary = []\<rparr>"

text \<open>
  The call \<^verbatim>\<open>extract_ltr_and_drivers(df, survey_name, ALL_COLUMNS)\<close> in the loop looks the
  name up among the globals: unbound, Python raises \<^verbatim>\<open>NameError\<close>.
\<close>

definition call_extract_ltr_and_drivers ::
  "env \<Rightarrow> dataframe \<Rightarrow> string \<Rightarrow> taxonomy \<Rightarrow> string + dataframe option" where
  "call_extract_ltr_and_drivers e df survey_name ALL_COLUMNS =
     (if extract_defined e then extract_ltr_and_drivers (list_of_set e) df survey_name ALL_COLUMNS
      else Inl ''name 'extract_ltr_and_drivers' is not defined'')"

definition has_type :: "taxonomy \<Rightarrow> string \<Rightarrow> dataframe \<Rightarrow> bool" where
  "has_type ALL_COLUMNS ty df = (\<exists>col \<in> set (columns df). map_of ALL_COLUMNS col = Some ty)"

definition failure_row :: "env \<Rightarrow> string \<Rightarrow> string \<Rightarrow> summary_row" where
  "failure_row e survey_name status =
     \<lparr>Survey_Name = survey_name, Records_Processed = 0, Columns_Count = 0,
      Columns_Transformed = 0, Has_LTR_Data = False, Has_Driver_Data = False,
      Processing_Status = status, Processed_Time = now e\<rparr>"

text \<open>
  The body of the \<^verbatim>\<open>try\<close>, statement by statement. It returns the lists as they are
  when it ends, together with \<open>Inr ()\<close> when it ran to its end and \<open>Inl (str e)\<close>
  when an exception \<open>e\<close> left it: the lists are mutated in place, so what was appended
  before an exception stays appended.
  \<^verbatim>\<open>
  df = execute_query_and_load_data(survey_name)
  if df is not None and len(df) > 0:
      df['Survey_Name'] = survey_name
      df['Processed_Date'] = datetime.now()
      survey_mappings = mapper.get_survey_mappings(survey_name)
      if survey_mappings:
          df = mapper.transform_survey(df, survey_name, verbose=False)
      validation = mapper.validate_survey_config(survey_name, df)
      all_survey_data.append(df.copy())
      ltr_driver_subset = extract_ltr_and_drivers(df, survey_name, ALL_COLUMNS)
      if ltr_driver_subset is not None:
          nps_driver_data.append(ltr_driver_subset)
      processing_summary.append({..., 'Processing_Status': 'Success', ...})
  else:
      status = 'No Data' if df is not None else 'Failed to load'
      processing_summary.append({..., 'Processing_Status': status, ...})
  \<close>
\<close>

definition try_body ::
  "env \<Rightarrow> mapper \<Rightarrow> taxonomy \<Rightarrow> pstate \<Rightarrow> string \<Rightarrow> (string + unit) \<times> pstate" where
  "try_body e m ALL_COLUMNS st survey_name =
     (case execute_query_and_load_data e ALL_COLUMNS survey_name of
        Inl err \<Rightarrow> (Inl err, st)
      | Inr None \<Rightarrow>
          (Inr (), st\<lparr>processing_summary :=
                        processing_summary st @ [failure_row e survey_name ''Failed to load'']\<rparr>)
      | Inr (Some df0) \<Rightarrow>
          if length (rows df0) > 0 then
            (let df1 = set_column df0 ''Survey_Name'' (Text survey_name);
                 df2 = set_column df1 ''Processed_Date'' (Time (now e))
             in case get_survey_mappings m survey_name of
                  Inl err \<Rightarrow> (Inl err, st)
                | Inr survey_mappings \<Rightarrow>
                    (case (if survey_mappings \<noteq> [] then transform_survey m df2 survey_name
                           else Inr df2) of
                       Inl err \<Rightarrow> (Inl err, st)
                     | Inr df \<Rightarrow>
                         (case validate_survey_config m survey_name df of
                            Inl err \<Rightarrow> (Inl err, st)
                          | Inr validation \<Rightarrow>
                              (let st1 = st\<lparr>all_survey_data := all_survey_data st @ [df]\<rparr>
                               in case call_extract_ltr_and_drivers e df survey_name ALL_COLUMNS of
                                    Inl err \<Rightarrow> (Inl err, st1)
                                  | Inr ltr_driver_subset \<Rightarrow>
                                      (let st2 = (case ltr_driver_subset of
                                                    None \<Rightarrow> st1
                                                  | Some sub \<Rightarrow>
                                                      st1\<lparr>nps_driver_data := nps_driver_data st1 @ [sub]\<rparr>)
                                       in (Inr (),
                                           st2\<lparr>processing_summary := processing_summary st2 @
                                             [\<lparr>Survey_Name = survey_name,
                                               Records_Processed = length (rows df),
                                               Columns_Count = length (columns df),
                                               Columns_Transformed = length survey_mappings,
                                               Has_LTR_Data = has_type ALL_COLUMNS ''LTR'' df,
                                               Has_Driver_Data = has_type ALL_COLUMNS ''DRIVERS'' df,
                                               Processing_Status = ''Success'',
                                               Processed_Time = now e\<rparr>]\<rparr>))))))
          else
            (Inr (), st\<lparr>processing_summary :=
                          processing_summary st @ [failure_row e survey_name ''No Data'']\<rparr>))"

text \<open>
  One turn of the loop: the \<^verbatim>\<open>try\<close> with its handler
  \<^verbatim>\<open>
  except Exception as e:
      processing_summary.append({..., 'Processing_Status': f'Error: {str(e)}', ...})
  \<close>
\<close>

definition process_survey :: "env \<Rightarrow> mapper \<Rightarrow> taxonomy \<Rightarrow> pstate \<Rightarrow> string \<Rightarrow> pstate" where
  "process_survey e m ALL_COLUMNS st survey_name =
     (case try_body e m ALL_COLUMNS st survey_name of
        (Inr u, st') \<Rightarrow> st'
      | (Inl err, st') \<Rightarrow>
          st'\<lparr>processing_summary :=
                processing_summary st' @ [failure_row e survey_name (''Error: '' @ err)]\<rparr>)"

text \<open>\<^verbatim>\<open>for survey_name in SURVEYS: ...\<close>\<close>

fun process_surveys :: "env \<Rightarrow> mapper \<Rightarrow> taxonomy \<Rightarrow> pstate \<Rightarrow> string list \<Rightarrow> pstate" where
  "process_surveys e m ALL_COLUMNS st [] = st"
| "process_surveys e m ALL_COLUMNS st (survey_name # rest) =
     process_surveys e m ALL_COLUMNS (process_survey e m ALL_COLUMNS st survey_name) rest"

subsection \<open>Output generation\<close>

text \<open>
  The output cell creates directories and writes CSV files; nothing else touches the
  file system. Its effect is the list of these operations in program order; the content
  of a CSV file is the frame, or the list of summary rows, it was written from. The cell
  has no \<^verbatim>\<open>try\<close>: an exception ends it where it is raised, after the operations
  that came before.
\<close>

datatype content = Frame dataframe | Summary "summary_row list"

datatype fs_op = Makedirs string | To_csv string content

definition RAG_OUTPUT_DIR :: string where
  "RAG_OUTPUT_DIR = ''../rag_outputs/current/''"

definition ARCHIVE_DIR :: string where
  "ARCHIVE_DIR = ''../rag_outputs/archive/''"

definition OLD_OUTPUT_DIR :: string where
  "OLD_OUTPUT_DIR = ''../data/processed/''"

text \<open>
  \<^verbatim>\<open>
  if nps_driver_data:
      combined_ltr_drivers = pd.concat(nps_driver_data, ignore_index=True, sort=False)
      archive_file = os.path.join(ARCHIVE_DIR, f"Combined_LTR_Drivers_{TIMESTAMP}.csv")
      combined_ltr_drivers.to_csv(archive_file, index=False)
      current_file = os.path.join(RAG_OUTPUT_DIR, "combined_ltr_drivers.csv")
      combined_ltr_drivers.to_csv(current_file, index=False)
  \<close>
  and the same with \<^verbatim>\<open>all_survey_data\<close>, \<^verbatim>\<open>Combined_All_Surveys_\<close> and
  \<^verbatim>\<open>combined_all_surveys.csv\<close>; the summary is written without a condition. After a
  combined frame is written the cell prints the number of its surveys,
  \<^verbatim>\<open>combined_ltr_drivers['Survey_Name'].nunique()\<close>, which raises \<^verbatim>\<open>KeyError\<close> when
  the frame has no column \<open>Survey_Name\<close>. After the summary is written the cell prints
  the number of rows with the status \<open>Success\<close>,
  \<^verbatim>\<open>summary_df[summary_df['Processing_Status'] == 'Success']\<close>, which raises
  \<^verbatim>\<open>KeyError\<close> on a summary without rows, a frame without columns; the cell then ends
  before it creates \<^verbatim>\<open>OLD_OUTPUT_DIR\<close>. The calls of \<^verbatim>\<open>os.makedirs\<close> and
  \<^verbatim>\<open>to_csv\<close> are taken to succeed.
\<close>

definition combine_if_any :: "dataframe list \<Rightarrow> string + dataframe option" where
  "combine_if_any frames =
     (if frames \<noteq> []
      then (case pd_concat frames of Inl err \<Rightarrow> Inl err | Inr combined \<Rightarrow> Inr (Some combined))
      else Inr None)"

definition combined_ltr_drivers :: "pstate \<Rightarrow> string + dataframe option" where
  "combined_ltr_drivers st = combine_if_any (nps_driver_data st)"

definition combined_all_data :: "pstate \<Rightarrow> string + dataframe option" where
  "combined_all_data st = combine_if_any (all_survey_data st)"

definition archive_file :: "string \<Rightarrow> string \<Rightarrow> string" where
  "archive_file archive_name TIMESTAMP = path_join ARCHIVE_DIR (archive_name @ TIMESTAMP @ ''.csv'')"

definition current_file :: "string \<Rightarrow> string" where
  "current_file current_name = path_join RAG_OUTPUT_DIR current_name"

definition write_twice :: "string \<Rightarrow> string \<Rightarrow> string \<Rightarrow> content \<Rightarrow> fs_op list" where
  "write_twice archive_name TIMESTAMP current_name c =
     [To_csv (archive_file archive_name TIMESTAMP) c, To_csv (current_file current_name) c]"

text \<open>
  The cell, statement by statement: the operations it performed, and \<open>Inr ()\<close> when it
  ran to its end or \<open>Inl\<close> the message of the exception that ended it.
\<close>

definition write_if_any :: "string \<Rightarrow> string \<Rightarrow> string \<Rightarrow> dataframe option \<Rightarrow> fs_op list" where
  "write_if_any archive_name TIMESTAMP current_name combined =
     (case combined of
        Some c \<Rightarrow> write_twice archive_name TIMESTAMP current_name (Frame c)
      | None \<Rightarrow> [])"

definition surveys_included :: "dataframe option \<Rightarrow> string + unit" where
  "surveys_included combined =
     (case combined of
        Some c \<Rightarrow> if ''Survey_Name'' \<in> set (columns c) then Inr ()
                  else Inl ''KeyError: Survey_Name''
      | None \<Rightarrow> Inr ())"

definition generate_outputs :: "string \<Rightarrow> pstate \<Rightarrow> (string + unit) \<times> fs_op list" where
  "generate_outputs TIMESTAMP st =
     (let ops0 = [Makedirs RAG_OUTPUT_DIR, Makedirs ARCHIVE_DIR]
      in case combined_ltr_drivers st of
           Inl err \<Rightarrow> (Inl err, ops0)
         | Inr ltr \<Rightarrow>
             (let ops1 = ops0 @ write_if_any ''Combined_LTR_Drivers_'' TIMESTAMP
                                  ''combined_ltr_drivers.csv'' ltr
              in case surveys_included ltr of
                   Inl err \<Rightarrow> (Inl err, ops1)
                 | Inr printed \<Rightarrow>
                     (case combined_all_data st of
                        Inl err \<Rightarrow> (Inl err, ops1)
                      | Inr full \<Rightarrow>
                          (let ops2 = ops1 @ write_if_any ''Combined_All_Surveys_'' TIMESTAMP
                                               ''combined_all_surveys.csv'' full
                           in case surveys_included full of
                                Inl err \<Rightarrow> (Inl err, ops2)
                              | Inr printed \<Rightarrow>
                                  (let ops3 = ops2 @ write_twice ''Processing_Summary_'' TIMESTAMP
                                                       ''processing_summary.csv''
                                                       (Summary (processing_summary st))
                                   in if processing_summary st = []
                                      then (Inl ''KeyError: Processing_Status'', ops3)
                                      else (Inr (), ops3 @ [Makedirs OLD_OUTPUT_DIR]))))))"

text \<open>The files on disk, by path, and the effect of the operations on them.\<close>

type_synonym files = "string \<Rightarrow> content option"

fun run_op :: "files \<Rightarrow> fs_op \<Rightarrow> files" where
  "run_op fs (Makedirs d) = fs"
| "run_op fs (To_csv path c) = fs(path \<mapsto> c)"

text \<open>The CSV writes among a list of operations: path and content, in program order.\<close>

fun writes :: "fs_op list \<Rightarrow> (string \<times> content) list" where
  "writes [] = []"
| "writes (Makedirs d # ops) = writes ops"
| "writes (To_csv path c # ops) = (path, c) # writes ops"

definition write_outputs :: "string \<Rightarrow> pstate \<Rightarrow> files \<Rightarrow> files" where
  "write_outputs TIMESTAMP st fs = foldl run_op fs (snd (generate_outputs TIMESTAMP st))"

subsection \<open>What one survey contributes\<close>

text \<open>
  The frame that a turn of the loop appends to \<^verbatim>\<open>all_survey_data\<close>, if the turn gets
  that far: the loaded, validated, non-empty frame after the mapper's calls returned.
\<close>

definition appended_frame :: "env \<Rightarrow> mapper \<Rightarrow> taxonomy \<Rightarrow> string \<Rightarrow> dataframe option" where
  "appended_frame e m ALL_COLUMNS survey_name =
     (case execute_query_and_load_data e ALL_COLUMNS survey_name of
        Inr (Some df0) \<Rightarrow>
          if length (rows df0) > 0 then
            (let df2 = set_column (set_column df0 ''Survey_Name'' (Text survey_name))
                         ''Processed_Date'' (Time (now e))
             in case get_survey_mappings m survey_name of
                  Inl err \<Rightarrow> None
                | Inr survey_mappings \<Rightarrow>
                    (case (if survey_mappings \<noteq> [] then transform_survey m df2 survey_name
                           else Inr df2) of
                       Inl err \<Rightarrow> None
                     | Inr df \<Rightarrow>
                         (case validate_survey_config m survey_name df of
                            Inl err \<Rightarrow> None
                          | Inr validation \<Rightarrow> Some df)))
          else None
      | _ \<Rightarrow> None)"

text \<open>
  The dataset of a survey that was read and passed column validation, as the record
  source returned it.
\<close>

definition validated_dataset :: "env \<Rightarrow> taxonomy \<Rightarrow> string \<Rightarrow> dataframe option" where
  "validated_dataset e ALL_COLUMNS survey_name =
     (case load_sql_query e survey_name of
        Inl err \<Rightarrow> None
      | Inr query \<Rightarrow>
          (case read_sql_query e query of
             Inl err \<Rightarrow> None
           | Inr df \<Rightarrow> if fst (validate_columns df survey_name ALL_COLUMNS) then Some df else None))"

text \<open>The four kinds of status that a summary row may carry, as the notebook spells them.\<close>

definition known_status :: "string \<Rightarrow> bool" where
  "known_status status \<longleftrightarrow>
     status = ''Success'' \<or> status = ''No Data'' \<or> status = ''Failed to load'' \<or>
     take 7 status = ''Error: ''"

subsection \<open>A small run\<close>

text \<open>
  A taxonomy, a mapper and an environment on which the functions above can be run.
  The mapper has no survey configured. The environment has seven surveys: \<open>survey_1\<close>
  has an LTR column, \<open>survey_2\<close> has a column outside the taxonomy, \<open>survey_3\<close> has
  STANDARD and METADATA columns only, \<open>survey_4\<close> has no SQL file, the query of
  \<open>survey_5\<close> fails in the database, the query of \<open>survey_6\<close> returns two columns
  with the label \<open>Demographics_Age\<close> and the query of \<open>survey_7\<close> two columns with
  the label \<open>NPS_Score\<close>.
\<close>

definition example_taxonomy :: taxonomy where
  "example_taxonomy =
     [(''ResponseID'', ''STANDARD''), (''Timestamp'', ''STANDARD''), (''NPS_Score'', ''LTR''),
      (''Satisfaction_Rating'', ''DRIVERS''), (''Demographics_Age'', ''METADATA'')]"

definition example_mapper :: mapper where
  "example_mapper =
     \<lparr>get_survey_mappings = (\<lambda>s. Inr []),
      transform_survey = (\<lambda>df s. Inr df),
      validate_survey_config = (\<lambda>s df. Inr ([], []))\<rparr>"

definition frame_1 :: dataframe where
  "frame_1 = \<lparr>columns = [''ResponseID'', ''NPS_Score''],
              rows = [[Text ''r1'', Num 9], [Text ''r2'', Num 3]]\<rparr>"

definition frame_2 :: dataframe where
  "frame_2 = \<lparr>columns = [''ResponseID'', ''Timestamp'', ''Weird_Column''],
              rows = [[Text ''r1'', Time 1, Text ''x'']]\<rparr>"

definition frame_3 :: dataframe where
  "frame_3 = \<lparr>columns = [''ResponseID'', ''Demographics_Age''],
              rows = [[Text ''r1'', Text ''25-34'']]\<rparr>"

definition frame_6 :: dataframe where
  "frame_6 = \<lparr>columns = [''ResponseID'', ''NPS_Score'', ''Demographics_Age'', ''Demographics_Age''],
              rows = [[Text ''r1'', Num 8, Text ''25-34'', Text ''35-44'']]\<rparr>"

definition frame_7 :: dataframe where
  "frame_7 = \<lparr>columns = [''ResponseID'', ''NPS_Score'', ''NPS_Score''],
              rows = [[Text ''r1'', Num 8, Num 9]]\<rparr>"

definition example_env :: env where
  "example_env =
     \<lparr>sql_files = map_of
        [(''../sql_queries/survey_1/get_data.sql'', ''SELECT 1''),
         (''../sql_queries/survey_2/get_data.sql'', ''SELECT 2''),
         (''../sql_queries/survey_3/get_data.sql'', ''SELECT 3''),
         (''../sql_queries/survey_5/get_data.sql'', ''SELECT 5''),
         (''../sql_queries/survey_6/get_data.sql'', ''SELECT 6''),
         (''../sql_queries/survey_7/get_data.sql'', ''SELECT 7'')],
      read_sql_query = (\<lambda>q. if q = ''SELECT 1'' then Inr frame_1
                             else if q = ''SELECT 2'' then Inr frame_2
                             else if q = ''SELECT 3'' then Inr frame_3
                             else if q = ''SELECT 6'' then Inr frame_6
                             else if q = ''SELECT 7'' then Inr frame_7
                             else Inl ''no such table''),
      now = 7,
      list_of_set = remdups,
      extract_defined = True\<rparr>"

text \<open>
  The same environment when the cells run in the order in which the notebook lists them:
  the loop runs before \<^verbatim>\<open>extract_ltr_and_drivers\<close> is defined.
\<close>

definition file_order_env :: env where
  "file_order_env = example_env\<lparr>extract_defined := False\<rparr>"

text \<open>
  The frames of \<open>survey_1\<close> and \<open>survey_3\<close> as the loop holds them when it appends
  them.
\<close>

definition loaded_frame_1 :: dataframe where
  "loaded_frame_1 =
     \<lparr>columns = [''ResponseID'', ''NPS_Score'', ''Survey_Name'', ''Processed_Date''],
      rows = [[Text ''r1'', Num 9, Text ''survey_1'', Time 7],
              [Text ''r2'', Num 3, Text ''survey_1'', Time 7]]\<rparr>"

definition loaded_frame_3 :: dataframe where
  "loaded_frame_3 =
     \<lparr>columns = [''ResponseID'', ''Demographics_Age'', ''Survey_Name'', ''Processed_Date''],
      rows = [[Text ''r1'', Text ''25-34'', Text ''survey_3'', Time 7]]\<rparr>"

text \<open>
  The lists after a run over \<open>survey_1\<close> alone and after a run over \<open>survey_2\<close> alone.
\<close>

definition first_run :: pstate where
  "first_run =
     process_surveys example_env example_mapper example_taxonomy initial_state [''survey_1'']"

definition second_run :: pstate where
  "second_run =
     process_surveys example_env example_mapper example_taxonomy initial_state [''survey_2'']"

text \<open>The full combined frame of the run over \<open>survey_1\<close> to \<open>survey_5\<close>.\<close>

definition example_combined :: dataframe where
  "example_combined =
     \<lparr>columns = [''ResponseID'', ''NPS_Score'', ''Survey_Name'', ''Processed_Date'',
                 ''Demographics_Age''],
      rows = [[Text ''r1'', Num 9, Text ''survey_1'', Time 7, NaN],
              [Text ''r2'', Num 3, Text ''survey_1'', Time 7, NaN],
              [Text ''r1'', NaN, Text ''survey_3'', Time 7, Text ''25-34'']]\<rparr>"

text \<open>
  The lists after a run over \<open>survey_6\<close>, whose frame repeats a label, and \<open>survey_1\<close>,
  after a run over \<open>survey_7\<close>, whose frame repeats the label of its LTR column, and
  \<open>survey_1\<close>, and after the run over \<open>survey_1\<close> with the cells in the order of the
  file.
\<close>

definition repeated_label_run :: pstate where
  "repeated_label_run =
     process_surveys example_env example_mapper example_taxonomy initial_state
       [''survey_6'', ''survey_1'']"

definition repeated_ltr_label_run :: pstate where
  "repeated_ltr_label_run =
     process_surveys example_env example_mapper example_taxonomy initial_state
       [''survey_7'', ''survey_1'']"

definition file_order_run :: pstate where
  "file_order_run =
     process_surveys file_order_env example_mapper example_taxonomy initial_state [''survey_1'']"

text \<open>
  A mapper that has a mapping for every survey and whose \<^verbatim>\<open>transform_survey\<close> raises,
  and the lists after the run over \<open>survey_1\<close> with it.
\<close>

definition raising_mapper :: mapper where
  "raising_mapper =
     \<lparr>get_survey_mappings = (\<lambda>s. Inr [(''NPS_Score'', ''recommendation_10_scale'')]),
      transform_survey = (\<lambda>df s. Inl ''transformation failed''),
      validate_survey_config = (\<lambda>s df. Inr ([], []))\<rparr>"

definition raising_mapper_run :: pstate where
  "raising_mapper_run =
     process_surveys example_env raising_mapper example_taxonomy initial_state [''survey_1'']"

text \<open>
  A mapper whose \<^verbatim>\<open>transform_survey\<close> returns the dataset of the survey as it was read,
  without the bookkeeping columns, and the lists after the run over \<open>survey_1\<close> and
  after the run over \<open>survey_3\<close> with it.
\<close>

definition bare_mapper :: mapper where
  "bare_mapper =
     \<lparr>get_survey_mappings = (\<lambda>s. Inr [(''NPS_Score'', ''recommendation_10_scale'')]),
      transform_survey = (\<lambda>df s. Inr (if s = ''survey_3'' then frame_3 else frame_1)),
      validate_survey_config = (\<lambda>s df. Inr ([], []))\<rparr>"

definition bare_ltr_run :: pstate where
  "bare_ltr_run =
     process_surveys example_env bare_mapper example_taxonomy initial_state [''survey_1'']"

definition bare_full_run :: pstate where
  "bare_full_run =
     process_surveys example_env bare_mapper example_taxonomy initial_state [''survey_3'']"

section \<open>The mapper, from the specification\<close>

text \<open>
  Modelled from the spec: a MappingDictionary, "a named, ordered mapping from a normalized
  response label (trimmed, case-folded) to a numeric value", and the MappingDictionaryStore
  that holds the dictionaries by name. The class \<^verbatim>\<open>SimpleSurveyMapper\<close> that implements
  them is in the module \<^verbatim>\<open>shared.transformations\<close>, which is not among the sources.
\<close>

type_synonym mapping_dictionary = "(string \<times> int) list"

type_synonym dictionary_store = "(string \<times> mapping_dictionary) list"

text \<open>
  Modelled from the spec: \<open>get(name)\<close> "returns the MappingDictionary or fails with
  ConfigError("unknown dictionary")"; the code of the store is not among the sources.
\<close>

definition store_get :: "dictionary_store \<Rightarrow> string \<Rightarrow> string + mapping_dictionary" where
  "store_get store name =
     (case map_of store name of
        None \<Rightarrow> Inl ''unknown dictionary''
      | Some d \<Rightarrow> Inr d)"

text \<open>
  Modelled from the spec: "input text is trimmed of leading/trailing whitespace and
  case-folded before lookup"; the normalization code is not among the sources. Case
  folding is modelled on the letters A to Z.
\<close>

definition casefold_char :: "char \<Rightarrow> char" where
  "casefold_char c =
     (case map_of (zip ''ABCDEFGHIJKLMNOPQRSTUVWXYZ'' ''abcdefghijklmnopqrstuvwxyz'') c of
        Some l \<Rightarrow> l
      | None \<Rightarrow> c)"

definition normalize :: "string \<Rightarrow> string" where
  "normalize s = map casefold_char (strip s)"

text \<open>
  Modelled from the spec: a value is "looked up in the target MappingDictionary using the
  same normalization"; the lookup code is not among the sources.
\<close>

definition dictionary_lookup :: "mapping_dictionary \<Rightarrow> string \<Rightarrow> int option" where
  "dictionary_lookup d label = map_of (map (\<lambda>(k, n). (normalize k, n)) d) (normalize label)"

text \<open>
  Modelled from the spec: the per-value rule of the TransformationEngine, whose code is
  not among the sources. "A no value marker input is preserved unchanged. A non-missing
  value is normalized and looked up; on hit, the value is replaced by the dictionary's
  numeric value; on miss, the original value is preserved unchanged", and
  "already-numeric values never match a textual dictionary key".
\<close>

fun map_value :: "mapping_dictionary \<Rightarrow> cell \<Rightarrow> cell" where
  "map_value d NaN = NaN"
| "map_value d (Text s) = (case dictionary_lookup d s of Some n \<Rightarrow> Num n | None \<Rightarrow> Text s)"
| "map_value d (Num n) = Num n"
| "map_value d (Time t) = Time t"

text \<open>
  Modelled from the spec: a SurveyMappingConfig, "survey_name to (column_name to
  dictionary_name), plus one global default_mappings map"; the configuration loader is
  not among the sources.
\<close>

record survey_mapping_config =
  survey_columns :: "(string \<times> (string \<times> string) list) list"
  default_mappings :: "(string \<times> string) list"

text \<open>
  Modelled from the spec: \<open>get_explicit_mappings(survey_name)\<close> gives the "mapping
  configured specifically for that survey (empty mapping if none configured)"; its code
  is not among the sources.
\<close>

definition get_explicit_mappings :: "survey_mapping_config \<Rightarrow> string \<Rightarrow> (string \<times> string) list" where
  "get_explicit_mappings cfg survey_name =
     (case map_of (survey_columns cfg) survey_name of
        None \<Rightarrow> []
      | Some cols \<Rightarrow> cols)"

text \<open>
  Modelled from the spec: the default rules that apply, "only if (a) that column is
  present in present_columns, (b) the column is not already explicitly configured for
  this survey, and (c) include_defaults is true"; the code is not among the sources.
\<close>

definition applied_defaults ::
  "survey_mapping_config \<Rightarrow> string \<Rightarrow> string list \<Rightarrow> bool \<Rightarrow> (string \<times> string) list" where
  "applied_defaults cfg survey_name present_columns include_defaults =
     filter (\<lambda>(column, dictionary_name).
               column \<in> set present_columns \<and>
               column \<notin> set (map fst (get_explicit_mappings cfg survey_name)) \<and>
               include_defaults)
       (default_mappings cfg)"

text \<open>
  Modelled from the spec: \<open>get_effective_mappings(survey_name, present_columns,
  include_defaults)\<close> gives the "explicit mappings merged with default mappings"; its
  code is not among the sources.
\<close>

definition get_effective_mappings ::
  "survey_mapping_config \<Rightarrow> string \<Rightarrow> string list \<Rightarrow> bool \<Rightarrow> (string \<times> string) list" where
  "get_effective_mappings cfg survey_name present_columns include_defaults =
     get_explicit_mappings cfg survey_name @
     applied_defaults cfg survey_name present_columns include_defaults"

text \<open>
  Modelled from the spec: the TransformationEngine, which is to "produce a new
  SurveyDataset where every column in the effective mapping set has its textual values
  replaced by dictionary-resolved numeric values"; its code is not among the sources.
  The dictionary of every column of the dataset is resolved first, a name that the store
  does not know being the store's error; then every cell is mapped by the dictionary of
  its column.
\<close>

definition column_dictionary ::
  "dictionary_store \<Rightarrow> (string \<times> string) list \<Rightarrow> string \<Rightarrow> string + mapping_dictionary option" where
  "column_dictionary store effective column =
     (case map_of effective column of
        None \<Rightarrow> Inr None
      | Some dictionary_name \<Rightarrow>
          (case store_get store dictionary_name of
             Inl err \<Rightarrow> Inl err
           | Inr d \<Rightarrow> Inr (Some d)))"

fun collect :: "('e + 'a) list \<Rightarrow> 'e + 'a list" where
  "collect [] = Inr []"
| "collect (Inl err # rs) = Inl err"
| "collect (Inr x # rs) = (case collect rs of Inl err \<Rightarrow> Inl err | Inr xs \<Rightarrow> Inr (x # xs))"

fun map_row :: "mapping_dictionary option list \<Rightarrow> cell list \<Rightarrow> cell list" where
  "map_row (None # ds) (v # vs) = v # map_row ds vs"
| "map_row (Some d # ds) (v # vs) = map_value d v # map_row ds vs"
| "map_row ds vs = vs"

definition apply_transformation ::
  "dictionary_store \<Rightarrow> survey_mapping_config \<Rightarrow> bool \<Rightarrow> dataframe \<Rightarrow> string \<Rightarrow> string + dataframe" where
  "apply_transformation store cfg include_defaults df survey_name =
     (let effective = get_effective_mappings cfg survey_name (columns df) include_defaults
      in case collect (map (column_dictionary store effective) (columns df)) of
           Inl err \<Rightarrow> Inl err
         | Inr ds \<Rightarrow> Inr (df\<lparr>rows := map (map_row ds) (rows df)\<rparr>))"

text \<open>
  Modelled from the spec: the dictionaries of its examples, \<open>satisfaction_5_scale\<close>,
  \<open>yes_no_binary\<close> and \<open>recommendation_10_scale\<close> ("10" maps to 10), and the default
  rule from \<open>NPS_Score\<close> to \<open>recommendation_10_scale\<close>; the configuration files are not
  among the sources. \<open>survey_a\<close> configures \<open>Satisfaction_Level\<close>, \<open>survey_b\<close> maps
  \<open>NPS_Score\<close> to another dictionary.
\<close>

definition example_store :: dictionary_store where
  "example_store =
     [(''satisfaction_5_scale'',
         [(''very dissatisfied'', 1), (''dissatisfied'', 2), (''neutral'', 3),
          (''satisfied'', 4), (''very satisfied'', 5)]),
      (''yes_no_binary'', [(''yes'', 1), (''no'', 0)]),
      (''recommendation_10_scale'',
         [(''0'', 0), (''1'', 1), (''2'', 2), (''3'', 3), (''4'', 4), (''5'', 5),
          (''6'', 6), (''7'', 7), (''8'', 8), (''9'', 9), (''10'', 10)])]"

definition example_config :: survey_mapping_config where
  "example_config =
     \<lparr>survey_columns =
        [(''survey_a'', [(''Satisfaction_Level'', ''satisfaction_5_scale'')]),
         (''survey_b'', [(''NPS_Score'', ''satisfaction_5_scale'')])],
      default_mappings = [(''NPS_Score'', ''recommendation_10_scale'')]\<rparr>"

definition frame_a :: dataframe where
  "frame_a =
     \<lparr>columns = [''ResponseID'', ''Satisfaction_Level'', ''NPS_Score''],
      rows = [[Text ''r1'', Text ''Very Satisfied'', Text ''10''],
              [Text ''r2'', Text ''  dissatisfied '', Text '' 7 ''],
              [Text ''r3'', Text ''Somewhat OK'', NaN]]\<rparr>"

definition transformed_frame_a :: dataframe where
  "transformed_frame_a =
     \<lparr>columns = [''ResponseID'', ''Satisfaction_Level'', ''NPS_Score''],
      rows = [[Text ''r1'', Num 5, Num 10],
              [Text ''r2'', Num 2, Num 7],
              [Text ''r3'', Text ''Somewhat OK'', NaN]]\<rparr>"

text \<open>
  Modelled from the spec: \<open>validate_survey_config(survey_name, dataset)\<close> "returns two
  sets: missing (columns configured for this survey but absent from the dataset) and
  extra (dataset columns not covered by any configured or default mapping)" and never
  raises; its code is not among the sources.
\<close>

definition missing_and_extra ::
  "survey_mapping_config \<Rightarrow> string \<Rightarrow> dataframe \<Rightarrow> string list \<times> string list" where
  "missing_and_extra cfg survey_name df =
     (filter (\<lambda>c. c \<notin> set (columns df)) (map fst (get_explicit_mappings cfg survey_name)),
      filter (\<lambda>c. c \<notin> set (map fst (get_explicit_mappings cfg survey_name)) \<and>
                  c \<notin> set (map fst (default_mappings cfg)))
        (columns df))"

text \<open>
  Modelled from the spec: the three methods that the loop calls, put together from the
  functions above for a store and a configuration, with defaults included;
  \<^verbatim>\<open>SimpleSurveyMapper\<close> itself is not among the sources.
\<close>

definition spec_mapper :: "dictionary_store \<Rightarrow> survey_mapping_config \<Rightarrow> mapper" where
  "spec_mapper store cfg =
     \<lparr>get_survey_mappings = (\<lambda>survey_name. Inr (get_explicit_mappings cfg survey_name)),
      transform_survey = (\<lambda>df survey_name. apply_transformation store cfg True df survey_name),
      validate_survey_config = (\<lambda>survey_name df. Inr (missing_and_extra cfg survey_name df))\<rparr>"

text \<open>
  A configuration that maps the column \<open>NPS_Score\<close> of \<open>survey_1\<close> to a dictionary that
  the example store does not hold, and the lists after the run over \<open>survey_1\<close> with it.
\<close>

definition unknown_dictionary_config :: survey_mapping_config where
  "unknown_dictionary_config =
     \<lparr>survey_columns = [(''survey_1'', [(''NPS_Score'', ''nps_11_scale'')])],
      default_mappings = []\<rparr>"

definition unknown_dictionary_run :: pstate where
  "unknown_dictionary_run =
     process_surveys example_env (spec_mapper example_store unknown_dictionary_config)
       example_taxonomy initial_state [''survey_1'']"

section \<open>Column validation\<close>

text \<open>
  C4. For every dataset and taxonomy, \<open>validate_columns\<close> returns the pair
  \<open>(is_valid, invalid_columns)\<close> in which \<open>invalid_columns\<close> is the set of the dataset's
  columns minus \<open>Survey_Name\<close> and \<open>Processed_Date\<close> minus the taxonomy's column names,
  and \<open>is_valid\<close> holds exactly when that set is empty. In particular a dataset whose
  only column outside the taxonomy and the bookkeeping columns is \<open>c\<close> is invalid with
  \<open>invalid_columns = {c}\<close>, and a dataset whose columns outside the taxonomy are all
  bookkeeping columns is valid.
\<close>

theorem validate_columns_remainder:
  "validate_columns df survey_name tax =
     (set (columns df) - {''Survey_Name'', ''Processed_Date''} - fst ` set tax = {},
      set (columns df) - {''Survey_Name'', ''Processed_Date''} - fst ` set tax) \<and>
   (set (columns df) - {''Survey_Name'', ''Processed_Date''} - fst ` set tax = {c} \<longrightarrow>
      validate_columns df survey_name tax = (False, {c})) \<and>
   (set (columns df) - fst ` set tax \<subseteq> {''Survey_Name'', ''Processed_Date''} \<longrightarrow>
      validate_columns df survey_name tax = (True, {}))"
proof -
  let ?remainder = "set (columns df) - {''Survey_Name'', ''Processed_Date''} - fst ` set tax"
  have general: "validate_columns df survey_name tax = (?remainder = {}, ?remainder)"
    by (simp add: validate_columns_def Let_def del: Diff_eq_empty_iff)
  have one: "?remainder = {c} \<longrightarrow> validate_columns df survey_name tax = (False, {c})"
  proof
    assume c: "?remainder = {c}"
    then have "?remainder \<noteq> {}" by simp
    with general c show "validate_columns df survey_name tax = (False, {c})"
      by (simp del: Diff_eq_empty_iff)
  qed
  have "set (columns df) - fst ` set tax \<subseteq> {''Survey_Name'', ''Processed_Date''}
          \<longrightarrow> ?remainder = {}"
    by blast
  then have none: "set (columns df) - fst ` set tax \<subseteq> {''Survey_Name'', ''Processed_Date''}
          \<longrightarrow> validate_columns df survey_name tax = (True, {})"
    using general by (simp del: Diff_eq_empty_iff)
  show ?thesis using general one none by blast
qed


theorem validate_columns_remainder_witness:
  "set (columns frame_2) - {''Survey_Name'', ''Processed_Date''} - fst ` set example_taxonomy
     = {''Weird_Column''} \<and>
   validate_columns frame_2 ''survey_2'' example_taxonomy = (False, {''Weird_Column''}) \<and>
   set (columns (set_column frame_3 ''Survey_Name'' (Text ''survey_3''))) - fst ` set example_taxonomy
     \<subseteq> {''Survey_Name'', ''Processed_Date''} \<and>
   validate_columns (set_column frame_3 ''Survey_Name'' (Text ''survey_3'')) ''survey_3''
     example_taxonomy = (True, {})"
proof -
  have one: "set (columns frame_2) - {''Survey_Name'', ''Processed_Date''}
               - fst ` set example_taxonomy = {''Weird_Column''}"
    by code_simp
  have two: "set (columns (set_column frame_3 ''Survey_Name'' (Text ''survey_3'')))
               - fst ` set example_taxonomy \<subseteq> {''Survey_Name'', ''Processed_Date''}"
    by code_simp
  note a = validate_columns_remainder [of frame_2 "''survey_2''" example_taxonomy "''Weird_Column''",
      THEN conjunct2, THEN conjunct1, THEN mp, OF one]
  note b = validate_columns_remainder [of "set_column frame_3 ''Survey_Name'' (Text ''survey_3'')"
      "''survey_3''" example_taxonomy, THEN conjunct2, THEN conjunct2, THEN mp, OF two]
  show ?thesis
    by (intro conjI one two a b)
qed

section \<open>The processing loop, survey by survey\<close>

lemma all_survey_data_process_survey:
  "all_survey_data (process_survey e m tax st s) =
     all_survey_data st @ (case appended_frame e m tax s of None \<Rightarrow> [] | Some d \<Rightarrow> [d])"
  by (simp add: process_survey_def try_body_def appended_frame_def Let_def
           split: sum.split option.split)

lemma nps_driver_data_process_survey:
  "nps_driver_data (process_survey e m tax st s) =
     nps_driver_data st @
       (case appended_frame e m tax s of
          None \<Rightarrow> []
        | Some d \<Rightarrow> (case call_extract_ltr_and_drivers e d s tax of
                       Inr (Some sub) \<Rightarrow> [sub]
                     | _ \<Rightarrow> []))"
  by (auto simp: process_survey_def try_body_def appended_frame_def Let_def
           split: sum.splits option.splits if_splits)

lemma processing_summary_process_survey:
  "\<exists>row. processing_summary (process_survey e m tax st s) = processing_summary st @ [row] \<and>
         Survey_Name row = s \<and> known_status (Processing_Status row)"
  by (simp add: process_survey_def try_body_def Let_def failure_row_def known_status_def
           split: sum.split option.split)

lemma processing_summary_process_surveys:
  "map Survey_Name (processing_summary (process_surveys e m tax st ss)) =
     map Survey_Name (processing_summary st) @ ss \<and>
   ((\<forall>row \<in> set (processing_summary st). known_status (Processing_Status row)) \<longrightarrow>
    (\<forall>row \<in> set (processing_summary (process_surveys e m tax st ss)).
        known_status (Processing_Status row)))"
proof (induction ss arbitrary: st)
  case Nil
  show ?case by simp
next
  case (Cons s ss)
  obtain row where row:
    "processing_summary (process_survey e m tax st s) = processing_summary st @ [row]"
    "Survey_Name row = s" "known_status (Processing_Status row)"
    using processing_summary_process_survey by blast
  show ?case
    using Cons.IH [of "process_survey e m tax st s"] row by auto
qed

lemma error_row_process_survey:
  "try_body e m tax st s = (Inl err, st') \<Longrightarrow>
     process_survey e m tax st s =
       st'\<lparr>processing_summary := processing_summary st' @ [failure_row e s (''Error: '' @ err)]\<rparr>"
  by (simp add: process_survey_def)

lemma all_survey_data_process_surveys:
  "all_survey_data (process_surveys e m tax st ss) =
     all_survey_data st @ List.map_filter (appended_frame e m tax) ss"
proof (induction ss arbitrary: st)
  case Nil
  show ?case by (simp add: List.map_filter_simps)
next
  case (Cons s ss)
  show ?case
    by (simp add: Cons.IH all_survey_data_process_survey List.map_filter_simps split: option.split)
qed

lemma rows_set_column: "length (rows (set_column df c v)) = length (rows df)"
  by (simp add: set_column_def)

lemma execute_query_validated:
  "execute_query_and_load_data e tax s = Inr (Some d) \<longleftrightarrow>
     (\<exists>df. validated_dataset e tax s = Some df \<and> d = set_column df ''Survey_Name'' (Text s))"
  by (auto simp: execute_query_and_load_data_def validated_dataset_def Let_def
           split: sum.splits prod.splits if_splits)

lemma appended_frame_rows:
  assumes "\<And>s. \<exists>ms. get_survey_mappings m s = Inr ms"
    and "\<And>df s. \<exists>df'. transform_survey m df s = Inr df' \<and> length (rows df') = length (rows df)"
    and "\<And>s df. \<exists>v. validate_survey_config m s df = Inr v"
  shows "(case appended_frame e m tax s of None \<Rightarrow> 0 | Some d \<Rightarrow> length (rows d)) =
         (case validated_dataset e tax s of None \<Rightarrow> 0 | Some df \<Rightarrow> length (rows df))"
proof (cases "validated_dataset e tax s")
  case None
  then have "\<And>d. execute_query_and_load_data e tax s \<noteq> Inr (Some d)"
    using execute_query_validated by simp
  then have "appended_frame e m tax s = None"
    by (auto simp: appended_frame_def split: sum.splits option.splits)
  with None show ?thesis by simp
next
  case (Some df)
  let ?d0 = "set_column df ''Survey_Name'' (Text s)"
  let ?d2 = "set_column (set_column ?d0 ''Survey_Name'' (Text s)) ''Processed_Date'' (Time (now e))"
  have ex: "execute_query_and_load_data e tax s = Inr (Some ?d0)"
    using Some execute_query_validated by simp
  obtain ms where ms: "get_survey_mappings m s = Inr ms" using assms(1) by blast
  obtain df' where df': "transform_survey m ?d2 s = Inr df'" "length (rows df') = length (rows ?d2)"
    using assms(2) by blast
  obtain v where v: "validate_survey_config m s df' = Inr v" using assms(3) by blast
  obtain v2 where v2: "validate_survey_config m s ?d2 = Inr v2" using assms(3) by blast
  show ?thesis
  proof (cases "rows df = []")
    case True
    then show ?thesis using Some ex by (simp add: appended_frame_def rows_set_column)
  next
    case False
    then show ?thesis using Some ex ms df' v v2
      by (simp add: appended_frame_def rows_set_column Let_def)
  qed
qed

lemma sum_list_map_filter:
  "sum_list (map f (List.map_filter g xs)) =
     sum_list (map (\<lambda>x. case g x of None \<Rightarrow> 0 | Some y \<Rightarrow> f y) xs)"
  for f :: "'b \<Rightarrow> nat"
  by (induction xs) (simp_all add: List.map_filter_simps split: option.split)

lemma example_load_missing:
  "try_body example_env example_mapper example_taxonomy initial_state ''survey_4'' =
     (Inl ''SQL file not found: ../sql_queries/survey_4/get_data.sql'', initial_state)"
  by code_simp

lemma example_statuses:
  "map Processing_Status (processing_summary
     (process_surveys example_env example_mapper example_taxonomy initial_state
        [''survey_1'', ''survey_2'', ''survey_3'', ''survey_4'', ''survey_5''])) =
   [''Success'', ''Failed to load'', ''Success'',
    ''Error: SQL file not found: ../sql_queries/survey_4/get_data.sql'', ''Failed to load'']"
  by code_simp


lemma appended_frame_iff:
  "appended_frame e m tax s = Some d \<longleftrightarrow>
     (\<exists>df ms v. validated_dataset e tax s = Some df \<and> rows df \<noteq> [] \<and>
        get_survey_mappings m s = Inr ms \<and>
        (if ms \<noteq> []
         then transform_survey m
                (set_column (set_column (set_column df ''Survey_Name'' (Text s))
                   ''Survey_Name'' (Text s)) ''Processed_Date'' (Time (now e))) s
         else Inr (set_column (set_column (set_column df ''Survey_Name'' (Text s))
                   ''Survey_Name'' (Text s)) ''Processed_Date'' (Time (now e)))) = Inr d \<and>
        validate_survey_config m s d = Inr v)"
proof (cases "validated_dataset e tax s")
  case None
  then have "\<And>d0. execute_query_and_load_data e tax s \<noteq> Inr (Some d0)"
    using execute_query_validated by simp
  then have "appended_frame e m tax s = None"
    by (auto simp: appended_frame_def split: sum.splits option.splits)
  then show ?thesis using None by simp
next
  case (Some df)
  then have ex: "execute_query_and_load_data e tax s = Inr (Some (set_column df ''Survey_Name'' (Text s)))"
    using execute_query_validated by simp
  show ?thesis
  proof (cases "rows df = []")
    case True
    then show ?thesis
      using Some ex by (simp add: appended_frame_def rows_set_column)
  next
    case False
    then have ne: "0 < length (rows (set_column df ''Survey_Name'' (Text s)))"
      by (simp add: rows_set_column)
    let ?L = "set_column (set_column (set_column df ''Survey_Name'' (Text s))
                   ''Survey_Name'' (Text s)) ''Processed_Date'' (Time (now e))"
    show ?thesis
    proof (cases "get_survey_mappings m s")
      case (Inl err)
      then show ?thesis
        using Some ex ne by (simp add: appended_frame_def Let_def)
    next
      case (Inr ms)
      let ?T = "if ms \<noteq> [] then transform_survey m ?L s else Inr ?L"
      show ?thesis
      proof (cases ?T)
        case (Inl err)
        then show ?thesis
          using Some ex ne \<open>get_survey_mappings m s = Inr ms\<close> False
          by (simp add: appended_frame_def Let_def)
      next
        case mapped: (Inr d')
        show ?thesis
        proof (cases "validate_survey_config m s d'")
          case (Inl err)
          then show ?thesis
            using Some ex ne \<open>get_survey_mappings m s = Inr ms\<close> False mapped
            by (auto simp: appended_frame_def Let_def)
        next
          case (Inr v)
          then show ?thesis
            using Some ex ne \<open>get_survey_mappings m s = Inr ms\<close> False mapped
            by (auto simp: appended_frame_def Let_def)
        qed
      qed
    qed
  qed
qed

section \<open>Combining frames\<close>

lemma pd_concat_cases:
  assumes "pd_concat frames = Inr c"
  shows "(c = \<lparr>columns = columns c, rows = concat (map rows frames)\<rparr> \<and>
          (\<forall>df \<in> set frames. columns df = columns c)) \<or>
         (c = \<lparr>columns = union_columns frames,
               rows = concat (map (\<lambda>df. map (reindex_row (union_columns frames) df) (rows df))
                                  frames)\<rparr> \<and>
          (\<forall>df \<in> set frames. distinct (columns df)))"
proof (cases frames)
  case Nil
  then show ?thesis using assms by (simp add: pd_concat_def)
next
  case (Cons first others)
  show ?thesis
  proof (cases "\<forall>df \<in> set others. columns df = columns first")
    case True
    then have c: "c = \<lparr>columns = columns first, rows = concat (map rows frames)\<rparr>"
      using assms Cons by (simp add: pd_concat_def)
    then have "columns c = columns first" by simp
    then have "\<forall>df \<in> set frames. columns df = columns c"
      using True Cons by auto
    moreover have "c = \<lparr>columns = columns c, rows = concat (map rows frames)\<rparr>"
      using c by simp
    ultimately show ?thesis by blast
  next
    case False
    then show ?thesis
      using assms Cons by (auto simp: pd_concat_def split: if_splits)
  qed
qed

lemma rows_pd_concat:
  assumes "pd_concat frames = Inr c"
  shows "length (rows c) = sum_list (map (\<lambda>df. length (rows df)) frames)"
proof -
  have "rows c = concat (map rows frames) \<or>
        rows c = concat (map (\<lambda>df. map (reindex_row (union_columns frames) df) (rows df)) frames)"
    using pd_concat_cases [OF assms] by (metis dataframe.select_convs(2))
  then show ?thesis
    by (auto simp: length_concat comp_def)
qed


lemma set_union_columns: "set (union_columns frames) = (\<Union>df \<in> set frames. set (columns df))"
  by (simp add: union_columns_def)

lemma length_reindex_row: "length (reindex_row cols d r) = length cols"
  by (simp add: reindex_row_def)

lemma reindex_row_present:
  assumes "distinct (columns d)" and "length r = length (columns d)" and "k < length (columns d)"
    and "i < length cols" and "cols ! i = columns d ! k"
  shows "reindex_row cols d r ! i = r ! k"
proof -
  have "map_of (zip (columns d) r) (columns d ! k) = Some (r ! k)"
    using assms(1-3) by (simp add: map_of_zip_nth)
  then show ?thesis
    using assms(4,5) by (simp add: reindex_row_def)
qed

lemma reindex_row_absent:
  assumes "i < length cols" and "cols ! i \<notin> set (columns d)"
  shows "reindex_row cols d r ! i = NaN"
proof -
  have "cols ! i \<notin> fst ` set (zip (columns d) r)"
    using assms(2) by (auto dest: set_zip_leftD)
  then have "map_of (zip (columns d) r) (cols ! i) = None"
    by (simp add: map_of_eq_None_iff)
  then show ?thesis
    using assms(1) by (simp add: reindex_row_def)
qed

lemma pd_concat_rows:
  assumes "pd_concat frames = Inr c"
  shows "\<exists>g. rows c = concat (map (\<lambda>d. map (g d) (rows d)) frames) \<and>
             (\<forall>d \<in> set frames. \<forall>r. length r = length (columns d) \<longrightarrow>
                length (g d r) = length (columns c) \<and>
                (\<forall>k < length (columns d). \<exists>i < length (columns c).
                    columns c ! i = columns d ! k \<and> g d r ! i = r ! k) \<and>
                (\<forall>i < length (columns c). columns c ! i \<notin> set (columns d) \<longrightarrow> g d r ! i = NaN))"
  using pd_concat_cases [OF assms]
proof (elim disjE conjE)
  assume c: "c = \<lparr>columns = columns c, rows = concat (map rows frames)\<rparr>"
    and same: "\<forall>df \<in> set frames. columns df = columns c"
  have "rows c = concat (map rows frames)"
    using c by (metis dataframe.select_convs(2))
  then have rows: "rows c = concat (map (\<lambda>d. map ((\<lambda>d r. r) d) (rows d)) frames)"
    by simp
  have cells: "\<forall>d \<in> set frames. \<forall>r :: cell list. length r = length (columns d) \<longrightarrow>
                length r = length (columns c) \<and>
                (\<forall>k < length (columns d). \<exists>i < length (columns c).
                    columns c ! i = columns d ! k \<and> r ! i = r ! k) \<and>
                (\<forall>i < length (columns c). columns c ! i \<notin> set (columns d) \<longrightarrow> r ! i = NaN)"
  proof (intro ballI allI impI)
    fix d and r :: "cell list"
    assume "d \<in> set frames" and r: "length r = length (columns d)"
    then have d: "columns d = columns c" using same by blast
    show "length r = length (columns c) \<and>
                (\<forall>k < length (columns d). \<exists>i < length (columns c).
                    columns c ! i = columns d ! k \<and> r ! i = r ! k) \<and>
                (\<forall>i < length (columns c). columns c ! i \<notin> set (columns d) \<longrightarrow> r ! i = NaN)"
      unfolding d using r d by auto
  qed
  show ?thesis
    by (rule exI [of _ "\<lambda>d r. r"]) (use rows cells in blast)
next
  assume c: "c = \<lparr>columns = union_columns frames,
        rows = concat (map (\<lambda>df. map (reindex_row (union_columns frames) df) (rows df)) frames)\<rparr>"
    and dist: "\<forall>df \<in> set frames. distinct (columns df)"
  let ?g = "\<lambda>d. reindex_row (union_columns frames) d"
  have rows: "rows c = concat (map (\<lambda>d. map (?g d) (rows d)) frames)"
    by (subst c) simp
  have cols: "columns c = union_columns frames"
    by (subst c) simp
  have cells: "\<forall>d \<in> set frames. \<forall>r. length r = length (columns d) \<longrightarrow>
                length (?g d r) = length (columns c) \<and>
                (\<forall>k < length (columns d). \<exists>i < length (columns c).
                    columns c ! i = columns d ! k \<and> ?g d r ! i = r ! k) \<and>
                (\<forall>i < length (columns c). columns c ! i \<notin> set (columns d) \<longrightarrow> ?g d r ! i = NaN)"
  proof (intro ballI allI impI)
    fix d and r :: "cell list"
    assume d: "d \<in> set frames" and r: "length r = length (columns d)"
    have len: "length (?g d r) = length (columns c)"
      by (simp add: cols length_reindex_row)
    have present: "\<forall>k < length (columns d). \<exists>i < length (columns c).
            columns c ! i = columns d ! k \<and> ?g d r ! i = r ! k"
    proof (intro allI impI)
      fix k
      assume k: "k < length (columns d)"
      then have "columns d ! k \<in> set (columns d)"
        by (rule nth_mem)
      then have "columns d ! k \<in> set (union_columns frames)"
        using d unfolding set_union_columns by blast
      then obtain i where i: "i < length (union_columns frames)"
        "union_columns frames ! i = columns d ! k"
        by (auto simp: in_set_conv_nth)
      have dd: "distinct (columns d)" using dist d by blast
      have "?g d r ! i = r ! k"
        by (rule reindex_row_present [OF dd r k i])
      then show "\<exists>i < length (columns c). columns c ! i = columns d ! k \<and> ?g d r ! i = r ! k"
        using i by (auto simp: cols)
    qed
    have absent: "\<forall>i < length (columns c). columns c ! i \<notin> set (columns d) \<longrightarrow> ?g d r ! i = NaN"
      by (simp add: cols reindex_row_absent)
    show "length (?g d r) = length (columns c) \<and>
                (\<forall>k < length (columns d). \<exists>i < length (columns c).
                    columns c ! i = columns d ! k \<and> ?g d r ! i = r ! k) \<and>
                (\<forall>i < length (columns c). columns c ! i \<notin> set (columns d) \<longrightarrow> ?g d r ! i = NaN)"
      using len present absent by (intro conjI)
  qed
  show ?thesis
    by (rule exI [of _ "\<lambda>d. reindex_row (union_columns frames) d"]) (use rows cells in blast)
qed

lemma columns_pd_concat:
  assumes "pd_concat frames = Inr c" and "d \<in> set frames"
  shows "set (columns d) \<subseteq> set (columns c)"
proof -
  have "(\<forall>df \<in> set frames. columns df = columns c) \<or> columns c = union_columns frames"
    using pd_concat_cases [OF assms(1)] by (metis dataframe.select_convs(1))
  then show ?thesis
    using assms(2) by (auto simp: set_union_columns)
qed

lemma pd_concat_returns:
  "frames \<noteq> [] \<Longrightarrow> \<forall>d \<in> set frames. distinct (columns d) \<Longrightarrow> \<exists>c. pd_concat frames = Inr c"
  by (cases frames) (simp_all add: pd_concat_def)

lemma combine_if_any_Some:
  "combine_if_any frames = Inr (Some c) \<longleftrightarrow> frames \<noteq> [] \<and> pd_concat frames = Inr c"
  by (auto simp: combine_if_any_def split: sum.splits)

lemma combine_if_any_None: "combine_if_any frames = Inr None \<longleftrightarrow> frames = []"
  by (auto simp: combine_if_any_def split: sum.splits)

section \<open>Failure isolation\<close>

text \<open>
  C1. For every run over the survey list, every survey of the list gets exactly one
  summary row, in list order, whatever happens while it is processed, and the status of
  every row is \<open>Success\<close>, \<open>No Data\<close>, \<open>Failed to load\<close> or starts with \<open>Error: \<close>.
  An exception that leaves the body of the \<^verbatim>\<open>try\<close> with message \<open>err\<close> is turned into
  the row with status \<open>Error: err\<close>, and the loop goes on with the rest of the list.
\<close>

theorem survey_failure_isolated:
  "map Survey_Name (processing_summary (process_surveys e m tax initial_state SURVEYS)) = SURVEYS \<and>
   (\<forall>row \<in> set (processing_summary (process_surveys e m tax initial_state SURVEYS)).
      known_status (Processing_Status row)) \<and>
   (\<forall>st s err st'. try_body e m tax st s = (Inl err, st') \<longrightarrow>
      process_surveys e m tax st (s # rest) =
        process_surveys e m tax
          (st'\<lparr>processing_summary :=
                 processing_summary st' @ [failure_row e s (''Error: '' @ err)]\<rparr>) rest)"
proof -
  have "map Survey_Name (processing_summary (process_surveys e m tax initial_state SURVEYS)) = SURVEYS"
    using processing_summary_process_surveys [of e m tax initial_state SURVEYS]
    by (simp add: initial_state_def)
  moreover have "\<forall>row \<in> set (processing_summary (process_surveys e m tax initial_state SURVEYS)).
      known_status (Processing_Status row)"
    using processing_summary_process_surveys [of e m tax initial_state SURVEYS]
    by (simp add: initial_state_def)
  moreover have "\<forall>st s err st'. try_body e m tax st s = (Inl err, st') \<longrightarrow>
      process_surveys e m tax st (s # rest) =
        process_surveys e m tax
          (st'\<lparr>processing_summary :=
                 processing_summary st' @ [failure_row e s (''Error: '' @ err)]\<rparr>) rest"
    by (simp add: error_row_process_survey)
  ultimately show ?thesis by blast
qed

theorem survey_failure_isolated_witness:
  "map Survey_Name (processing_summary
     (process_surveys example_env example_mapper example_taxonomy initial_state
        [''survey_1'', ''survey_2'', ''survey_3'', ''survey_4'', ''survey_5''])) =
     [''survey_1'', ''survey_2'', ''survey_3'', ''survey_4'', ''survey_5''] \<and>
   map (\<lambda>row. known_status (Processing_Status row)) (processing_summary
       (process_surveys example_env example_mapper example_taxonomy initial_state
          [''survey_1'', ''survey_2'', ''survey_3'', ''survey_4'', ''survey_5''])) =
     [True, True, True, True, True] \<and>
   try_body example_env example_mapper example_taxonomy initial_state ''survey_4'' =
     (Inl ''SQL file not found: ../sql_queries/survey_4/get_data.sql'', initial_state) \<and>
   process_surveys example_env example_mapper example_taxonomy initial_state
       [''survey_4'', ''survey_5''] =
     process_surveys example_env example_mapper example_taxonomy
       (initial_state\<lparr>processing_summary := processing_summary initial_state @
          [failure_row example_env ''survey_4''
             (''Error: '' @ ''SQL file not found: ../sql_queries/survey_4/get_data.sql'')]\<rparr>)
       [''survey_5'']"
proof -
  let ?S = "processing_summary
       (process_surveys example_env example_mapper example_taxonomy initial_state
          [''survey_1'', ''survey_2'', ''survey_3'', ''survey_4'', ''survey_5''])"
  note isolated = survey_failure_isolated [of example_env example_mapper example_taxonomy
      "[''survey_1'', ''survey_2'', ''survey_3'', ''survey_4'', ''survey_5'']" "[''survey_5'']"]
  have names: "map Survey_Name ?S =
      [''survey_1'', ''survey_2'', ''survey_3'', ''survey_4'', ''survey_5'']"
    using isolated by blast
  have "map (\<lambda>row. known_status (Processing_Status row)) ?S =
        map known_status (map Processing_Status ?S)"
    by (simp add: comp_def)
  also have "\<dots> = [True, True, True, True, True]"
    unfolding example_statuses by (simp add: known_status_def)
  finally have statuses: "map (\<lambda>row. known_status (Processing_Status row)) ?S =
      [True, True, True, True, True]" .
  have continues: "process_surveys example_env example_mapper example_taxonomy initial_state
       [''survey_4'', ''survey_5''] =
     process_surveys example_env example_mapper example_taxonomy
       (initial_state\<lparr>processing_summary := processing_summary initial_state @
          [failure_row example_env ''survey_4''
             (''Error: '' @ ''SQL file not found: ../sql_queries/survey_4/get_data.sql'')]\<rparr>)
       [''survey_5'']"
    using isolated [THEN conjunct2, THEN conjunct2, rule_format, OF example_load_missing] .
  show ?thesis
    using names statuses example_load_missing continues by blast
qed

section \<open>Row count and row order of the full combined output\<close>

lemma example_combined_all:
  "combined_all_data (process_surveys example_env example_mapper example_taxonomy initial_state
      [''survey_1'', ''survey_2'', ''survey_3'', ''survey_4'', ''survey_5'']) =
     Inr (Some example_combined)"
  by code_simp

lemma example_nothing_combined:
  "combined_all_data (process_surveys example_env example_mapper example_taxonomy initial_state
      [''survey_2'']) = Inr None"
  by code_simp

lemma example_frames:
  "List.map_filter (appended_frame example_env example_mapper example_taxonomy)
      [''survey_1'', ''survey_2'', ''survey_3'', ''survey_4'', ''survey_5''] =
     [loaded_frame_1, loaded_frame_3]"
  by code_simp

lemma example_absent_column:
  "1 < length (columns example_combined) \<and>
   columns example_combined ! 1 \<notin> set (columns loaded_frame_3)"
  by code_simp

lemma example_mapper_returns:
  "(\<forall>s. \<exists>ms. get_survey_mappings example_mapper s = Inr ms) \<and>
   (\<forall>df s. \<exists>df'. transform_survey example_mapper df s = Inr df' \<and>
              length (rows df') = length (rows df)) \<and>
   (\<forall>s df. \<exists>v. validate_survey_config example_mapper s df = Inr v)"
  by (simp add: example_mapper_def)

text \<open>
  The same happens with the mapper of the specification and a configuration that maps
  \<open>NPS_Score\<close> to a dictionary that the store does not hold: the transformation fails on
  the unknown dictionary and the frame of \<open>survey_1\<close> is not appended.
\<close>

lemma unknown_dictionary_appends_nothing:
  "map Processing_Status (processing_summary unknown_dictionary_run) =
     [''Error: unknown dictionary''] \<and>
   all_survey_data unknown_dictionary_run = [] \<and>
   combined_all_data unknown_dictionary_run = Inr None"
  by code_simp

text \<open>
  C5, as the claim states it, fails. The dataset of \<open>survey_1\<close> is read, passes column
  validation and has two rows. The survey has a mapping and \<^verbatim>\<open>transform_survey\<close>
  raises; the loop catches the exception, which left the \<^verbatim>\<open>try\<close> before the frame was
  appended, the status of the survey is an error, and the run has no frame to combine:
  no rows against the two rows of the validated dataset.
\<close>

theorem validated_survey_contributes_nothing_counterexample:
  "validated_dataset example_env example_taxonomy ''survey_1'' = Some frame_1 \<and>
   length (rows frame_1) = 2 \<and>
   map Processing_Status (processing_summary raising_mapper_run) =
     [''Error: transformation failed''] \<and>
   all_survey_data raising_mapper_run = [] \<and>
   combined_all_data raising_mapper_run = Inr None"
  by code_simp

text \<open>
  C5, amended. For every run, with any mapper, the frames that are combined into the full
  output are, in the order of the survey list, the frames of the surveys that are
  appended: a survey is appended exactly when its dataset was read, passed column
  validation and has a row, and \<^verbatim>\<open>get_survey_mappings\<close>, \<^verbatim>\<open>transform_survey\<close> (called
  when the survey has mappings) and \<^verbatim>\<open>validate_survey_config\<close> all returned; the frame
  is then the dataset with its bookkeeping columns, as the mapper transformed it. When
  \<^verbatim>\<open>pd.concat\<close> returns, the number of rows of the combined output is the sum, over the
  survey list, of the number of rows of the appended frames, every other survey adding
  nothing, and its rows are the rows of these frames, frame after frame in the order of
  the list and row after row, neither sorted nor deduplicated: each row of a frame whose
  rows have a cell for every column keeps, under every label of the frame, the cell it
  had, and is missing under the labels that the frame does not have. When no frame was
  appended the output is not written and the sum is zero. When the mapper returns from
  every call and keeps the number of rows, the sum is the sum of the number of rows of
  the datasets that passed column validation.
\<close>

theorem combined_all_rows_in_survey_order:
  "all_survey_data (process_surveys e m tax initial_state SURVEYS) =
     List.map_filter (appended_frame e m tax) SURVEYS \<and>
   (\<forall>s d. appended_frame e m tax s = Some d \<longleftrightarrow>
      (\<exists>df ms v. validated_dataset e tax s = Some df \<and> rows df \<noteq> [] \<and>
         get_survey_mappings m s = Inr ms \<and>
         (if ms \<noteq> []
          then transform_survey m
                 (set_column (set_column (set_column df ''Survey_Name'' (Text s))
                    ''Survey_Name'' (Text s)) ''Processed_Date'' (Time (now e))) s
          else Inr (set_column (set_column (set_column df ''Survey_Name'' (Text s))
                    ''Survey_Name'' (Text s)) ''Processed_Date'' (Time (now e)))) = Inr d \<and>
         validate_survey_config m s d = Inr v)) \<and>
   (\<forall>c. combined_all_data (process_surveys e m tax initial_state SURVEYS) = Inr (Some c) \<longrightarrow>
      length (rows c) =
        sum_list (map (\<lambda>s. case appended_frame e m tax s of
                              None \<Rightarrow> 0 | Some d \<Rightarrow> length (rows d)) SURVEYS) \<and>
      (\<exists>g. rows c = concat (map (\<lambda>d. map (g d) (rows d))
                              (List.map_filter (appended_frame e m tax) SURVEYS)) \<and>
           (\<forall>d \<in> set (List.map_filter (appended_frame e m tax) SURVEYS).
              \<forall>r. length r = length (columns d) \<longrightarrow>
                length (g d r) = length (columns c) \<and>
                (\<forall>k < length (columns d). \<exists>i < length (columns c).
                    columns c ! i = columns d ! k \<and> g d r ! i = r ! k) \<and>
                (\<forall>i < length (columns c).
                    columns c ! i \<notin> set (columns d) \<longrightarrow> g d r ! i = NaN)))) \<and>
   (combined_all_data (process_surveys e m tax initial_state SURVEYS) = Inr None \<longrightarrow>
      sum_list (map (\<lambda>s. case appended_frame e m tax s of
                            None \<Rightarrow> 0 | Some d \<Rightarrow> length (rows d)) SURVEYS) = 0) \<and>
   ((\<forall>s. \<exists>ms. get_survey_mappings m s = Inr ms) \<and>
    (\<forall>df s. \<exists>df'. transform_survey m df s = Inr df' \<and> length (rows df') = length (rows df)) \<and>
    (\<forall>s df. \<exists>v. validate_survey_config m s df = Inr v) \<longrightarrow>
      sum_list (map (\<lambda>s. case appended_frame e m tax s of
                            None \<Rightarrow> 0 | Some d \<Rightarrow> length (rows d)) SURVEYS) =
      sum_list (map (\<lambda>s. case validated_dataset e tax s of
                            None \<Rightarrow> 0 | Some df \<Rightarrow> length (rows df)) SURVEYS))"
proof -
  let ?st = "process_surveys e m tax initial_state SURVEYS"
  let ?frames = "List.map_filter (appended_frame e m tax) SURVEYS"
  let ?count = "sum_list (map (\<lambda>s. case appended_frame e m tax s of
                              None \<Rightarrow> 0 | Some d \<Rightarrow> length (rows d)) SURVEYS)"
  have frames: "all_survey_data ?st = ?frames"
    by (simp add: all_survey_data_process_surveys initial_state_def)
  have count: "sum_list (map (\<lambda>d. length (rows d)) ?frames) = ?count"
    by (rule sum_list_map_filter)
  have written: "\<forall>c. combined_all_data ?st = Inr (Some c) \<longrightarrow>
      length (rows c) = ?count \<and>
      (\<exists>g. rows c = concat (map (\<lambda>d. map (g d) (rows d)) ?frames) \<and>
           (\<forall>d \<in> set ?frames. \<forall>r. length r = length (columns d) \<longrightarrow>
                length (g d r) = length (columns c) \<and>
                (\<forall>k < length (columns d). \<exists>i < length (columns c).
                    columns c ! i = columns d ! k \<and> g d r ! i = r ! k) \<and>
                (\<forall>i < length (columns c).
                    columns c ! i \<notin> set (columns d) \<longrightarrow> g d r ! i = NaN)))"
  proof (intro allI impI)
    fix c
    assume "combined_all_data ?st = Inr (Some c)"
    then have c: "pd_concat ?frames = Inr c"
      unfolding combined_all_data_def frames combine_if_any_Some by blast
    show "length (rows c) = ?count \<and>
      (\<exists>g. rows c = concat (map (\<lambda>d. map (g d) (rows d)) ?frames) \<and>
           (\<forall>d \<in> set ?frames. \<forall>r. length r = length (columns d) \<longrightarrow>
                length (g d r) = length (columns c) \<and>
                (\<forall>k < length (columns d). \<exists>i < length (columns c).
                    columns c ! i = columns d ! k \<and> g d r ! i = r ! k) \<and>
                (\<forall>i < length (columns c).
                    columns c ! i \<notin> set (columns d) \<longrightarrow> g d r ! i = NaN)))"
      using rows_pd_concat [OF c] count pd_concat_rows [OF c] by (intro conjI) simp_all
  qed
  have omitted: "combined_all_data ?st = Inr None \<longrightarrow> ?count = 0"
  proof
    assume "combined_all_data ?st = Inr None"
    then have "?frames = []"
      unfolding combined_all_data_def frames combine_if_any_None .
    then show "?count = 0"
      using count by simp
  qed
  have kept: "(\<forall>s. \<exists>ms. get_survey_mappings m s = Inr ms) \<and>
    (\<forall>df s. \<exists>df'. transform_survey m df s = Inr df' \<and> length (rows df') = length (rows df)) \<and>
    (\<forall>s df. \<exists>v. validate_survey_config m s df = Inr v) \<longrightarrow>
      ?count = sum_list (map (\<lambda>s. case validated_dataset e tax s of
                            None \<Rightarrow> 0 | Some df \<Rightarrow> length (rows df)) SURVEYS)"
  proof
    assume h: "(\<forall>s. \<exists>ms. get_survey_mappings m s = Inr ms) \<and>
      (\<forall>df s. \<exists>df'. transform_survey m df s = Inr df' \<and> length (rows df') = length (rows df)) \<and>
      (\<forall>s df. \<exists>v. validate_survey_config m s df = Inr v)"
    have "\<And>s. (case appended_frame e m tax s of None \<Rightarrow> 0 | Some d \<Rightarrow> length (rows d)) =
         (case validated_dataset e tax s of None \<Rightarrow> 0 | Some df \<Rightarrow> length (rows df))"
      by (rule appended_frame_rows) (use h in blast)+
    then show "?count = sum_list (map (\<lambda>s. case validated_dataset e tax s of
                            None \<Rightarrow> 0 | Some df \<Rightarrow> length (rows df)) SURVEYS)"
      by simp
  qed
  show ?thesis
    using frames appended_frame_iff [of e m tax] written omitted kept
    by (intro conjI allI) blast+
qed

theorem combined_all_rows_in_survey_order_witness:
  "combined_all_data (process_surveys example_env example_mapper example_taxonomy initial_state
      [''survey_1'', ''survey_2'', ''survey_3'', ''survey_4'', ''survey_5'']) =
     Inr (Some example_combined) \<and>
   length (rows example_combined) =
     sum_list (map (\<lambda>s. case appended_frame example_env example_mapper example_taxonomy s of
                          None \<Rightarrow> 0 | Some d \<Rightarrow> length (rows d))
        [''survey_1'', ''survey_2'', ''survey_3'', ''survey_4'', ''survey_5'']) \<and>
   List.map_filter (appended_frame example_env example_mapper example_taxonomy)
      [''survey_1'', ''survey_2'', ''survey_3'', ''survey_4'', ''survey_5''] =
     [loaded_frame_1, loaded_frame_3] \<and>
   (\<exists>i < length (columns example_combined).
      columns example_combined ! i = ''Demographics_Age'' \<and>
      rows example_combined ! 2 ! i = Text ''25-34'') \<and>
   columns example_combined ! 1 \<notin> set (columns loaded_frame_3) \<and>
   rows example_combined ! 2 ! 1 = NaN \<and>
   combined_all_data (process_surveys example_env example_mapper example_taxonomy initial_state
      [''survey_2'']) = Inr None \<and>
   sum_list (map (\<lambda>s. case appended_frame example_env example_mapper example_taxonomy s of
                        None \<Rightarrow> 0 | Some d \<Rightarrow> length (rows d)) [''survey_2'']) = 0 \<and>
   (\<forall>s. \<exists>ms. get_survey_mappings example_mapper s = Inr ms) \<and>
   (\<forall>df s. \<exists>df'. transform_survey example_mapper df s = Inr df' \<and>
              length (rows df') = length (rows df)) \<and>
   (\<forall>s df. \<exists>v. validate_survey_config example_mapper s df = Inr v) \<and>
   sum_list (map (\<lambda>s. case appended_frame example_env example_mapper example_taxonomy s of
                        None \<Rightarrow> 0 | Some d \<Rightarrow> length (rows d))
      [''survey_1'', ''survey_2'', ''survey_3'', ''survey_4'', ''survey_5'']) =
   sum_list (map (\<lambda>s. case validated_dataset example_env example_taxonomy s of
                        None \<Rightarrow> 0 | Some df \<Rightarrow> length (rows df))
      [''survey_1'', ''survey_2'', ''survey_3'', ''survey_4'', ''survey_5''])"
proof -
  let ?five = "[''survey_1'', ''survey_2'', ''survey_3'', ''survey_4'', ''survey_5'']"
  let ?r = "[Text ''r1'', Text ''25-34'', Text ''survey_3'', Time 7]"
  note five = combined_all_rows_in_survey_order [of example_env example_mapper example_taxonomy
      ?five]
  note one = combined_all_rows_in_survey_order [of example_env example_mapper example_taxonomy
      "[''survey_2'']"]
  note combined = five [THEN conjunct2, THEN conjunct2, THEN conjunct1, rule_format,
      OF example_combined_all]
  note count = combined [THEN conjunct1]
  note none = one [THEN conjunct2, THEN conjunct2, THEN conjunct2, THEN conjunct1, THEN mp,
      OF example_nothing_combined]
  note kept = five [THEN conjunct2, THEN conjunct2, THEN conjunct2, THEN conjunct2, THEN mp,
      OF example_mapper_returns]
  obtain g where
    order: "rows example_combined =
        concat (map (\<lambda>d. map (g d) (rows d))
          (List.map_filter (appended_frame example_env example_mapper example_taxonomy) ?five))"
    and cells: "\<forall>d \<in> set (List.map_filter
            (appended_frame example_env example_mapper example_taxonomy) ?five).
        \<forall>r. length r = length (columns d) \<longrightarrow>
          length (g d r) = length (columns example_combined) \<and>
          (\<forall>k < length (columns d). \<exists>i < length (columns example_combined).
              columns example_combined ! i = columns d ! k \<and> g d r ! i = r ! k) \<and>
          (\<forall>i < length (columns example_combined).
              columns example_combined ! i \<notin> set (columns d) \<longrightarrow> g d r ! i = NaN)"
    using combined [THEN conjunct2] by blast
  have third: "rows example_combined ! 2 = g loaded_frame_3 ?r"
    unfolding order example_frames by (simp add: loaded_frame_1_def loaded_frame_3_def)
  have member: "loaded_frame_3 \<in> set (List.map_filter
      (appended_frame example_env example_mapper example_taxonomy) ?five)"
    unfolding example_frames by simp
  have len: "length ?r = length (columns loaded_frame_3)"
    by (simp add: loaded_frame_3_def)
  note row = cells [rule_format, OF member len]
  have k: "1 < length (columns loaded_frame_3)"
    by (simp add: loaded_frame_3_def)
  have label: "columns loaded_frame_3 ! 1 = ''Demographics_Age''" and cell: "?r ! 1 = Text ''25-34''"
    by (simp_all add: loaded_frame_3_def)
  have present: "\<exists>i < length (columns example_combined).
      columns example_combined ! i = ''Demographics_Age'' \<and>
      rows example_combined ! 2 ! i = Text ''25-34''"
    using row [THEN conjunct2, THEN conjunct1, rule_format, OF k]
    unfolding third label cell .
  have absent: "rows example_combined ! 2 ! 1 = NaN"
    using row [THEN conjunct2, THEN conjunct2, rule_format,
        OF example_absent_column [THEN conjunct1] example_absent_column [THEN conjunct2]]
    unfolding third .
  show ?thesis
    by (intro conjI example_combined_all count example_frames present
        example_absent_column [THEN conjunct2] absent example_nothing_combined none
        example_mapper_returns [THEN conjunct1]
        example_mapper_returns [THEN conjunct2, THEN conjunct1]
        example_mapper_returns [THEN conjunct2, THEN conjunct2] kept)
qed

section \<open>A survey with a column outside the taxonomy\<close>









section \<open>Extraction of the LTR and driver columns\<close>

lemma set_columns_of_type:
  assumes "distinct (map fst tax)"
  shows "set (columns_of_type tax ty df) = {c \<in> set (columns df). map_of tax c = Some ty}"
  using assms by (force simp: columns_of_type_def)

lemma has_type_columns_of_type:
  assumes "distinct (map fst tax)"
  shows "has_type tax ty df \<longleftrightarrow> columns_of_type tax ty df \<noteq> []"
proof -
  have "columns_of_type tax ty df \<noteq> [] \<longleftrightarrow> set (columns_of_type tax ty df) \<noteq> {}"
    by simp
  also have "\<dots> \<longleftrightarrow> has_type tax ty df"
    unfolding set_columns_of_type [OF assms] has_type_def by blast
  finally show ?thesis by simp
qed

lemma set_label_positions:
  "set (label_positions df c) = {i. i < length (columns df) \<and> columns df ! i = c}"
  by (auto simp: label_positions_def)

lemma positions_of_labels:
  "distinct labels \<Longrightarrow>
     distinct (concat (map (label_positions df) labels)) \<and>
     set (concat (map (label_positions df) labels)) =
       {i. i < length (columns df) \<and> columns df ! i \<in> set labels}"
proof (induction labels)
  case Nil
  show ?case by simp
next
  case (Cons l ls)
  have "distinct (label_positions df l)"
    by (simp add: label_positions_def)
  moreover have "set (label_positions df l) \<inter> set (concat (map (label_positions df) ls)) = {}"
    using Cons by (auto simp: set_label_positions)
  ultimately show ?case
    using Cons by (auto simp: set_label_positions)
qed

lemma select_columns_present:
  assumes "set labels \<subseteq> set (columns df)" and "distinct labels"
  shows "\<exists>idx. distinct idx \<and>
           set idx = {i. i < length (columns df) \<and> columns df ! i \<in> set labels} \<and>
           select_columns df labels =
             Inr \<lparr>columns = map ((!) (columns df)) idx,
                  rows = map (\<lambda>r. map ((!) r) idx) (rows df)\<rparr>"
proof -
  have "select_columns df labels =
          Inr \<lparr>columns = map ((!) (columns df)) (concat (map (label_positions df) labels)),
               rows = map (\<lambda>r. map ((!) r) (concat (map (label_positions df) labels))) (rows df)\<rparr>"
    using assms(1) by (auto simp: select_columns_def Let_def)
  then show ?thesis
    using positions_of_labels [OF assms(2), of df] by blast
qed

lemma relevant_columns_set:
  assumes "distinct (map fst tax)"
  shows "set (columns_of_type tax ''STANDARD'' df @ columns_of_type tax ''LTR'' df @
              columns_of_type tax ''DRIVERS'' df @
              filter (\<lambda>col. col \<in> set (columns df)) [''Survey_Name'', ''Processed_Date'']) =
         {c \<in> set (columns df).
            map_of tax c = Some ''STANDARD'' \<or> map_of tax c = Some ''LTR'' \<or>
            map_of tax c = Some ''DRIVERS'' \<or> c = ''Survey_Name'' \<or> c = ''Processed_Date''}"
  unfolding set_append set_columns_of_type [OF assms] by auto

lemma extract_some:
  assumes "distinct (map fst tax)"
    and "\<And>xs. set (los xs) = set xs" and "\<And>xs. distinct (los xs)"
    and "has_type tax ''LTR'' df \<or> has_type tax ''DRIVERS'' df"
  shows "\<exists>idx. distinct idx \<and>
           set idx = {i. i < length (columns df) \<and>
                         (map_of tax (columns df ! i) = Some ''STANDARD'' \<or>
                          map_of tax (columns df ! i) = Some ''LTR'' \<or>
                          map_of tax (columns df ! i) = Some ''DRIVERS'' \<or>
                          columns df ! i = ''Survey_Name'' \<or>
                          columns df ! i = ''Processed_Date'')} \<and>
           extract_ltr_and_drivers los df s tax =
             Inr (Some \<lparr>columns = map ((!) (columns df)) idx,
                        rows = map (\<lambda>r. map ((!) r) idx) (rows df)\<rparr>)"
proof -
  let ?labels = "los (columns_of_type tax ''STANDARD'' df @ columns_of_type tax ''LTR'' df @
              columns_of_type tax ''DRIVERS'' df @
              filter (\<lambda>col. col \<in> set (columns df)) [''Survey_Name'', ''Processed_Date''])"
  have labels: "set ?labels = {c \<in> set (columns df).
            map_of tax c = Some ''STANDARD'' \<or> map_of tax c = Some ''LTR'' \<or>
            map_of tax c = Some ''DRIVERS'' \<or> c = ''Survey_Name'' \<or> c = ''Processed_Date''}"
    unfolding assms(2) by (rule relevant_columns_set [OF assms(1)])
  then have sub: "set ?labels \<subseteq> set (columns df)" by blast
  obtain idx where idx: "distinct idx"
    "set idx = {i. i < length (columns df) \<and> columns df ! i \<in> set ?labels}"
    "select_columns df ?labels =
       Inr \<lparr>columns = map ((!) (columns df)) idx, rows = map (\<lambda>r. map ((!) r) idx) (rows df)\<rparr>"
    using select_columns_present [OF sub assms(3)] by blast
  have "set idx = {i. i < length (columns df) \<and>
                         (map_of tax (columns df ! i) = Some ''STANDARD'' \<or>
                          map_of tax (columns df ! i) = Some ''LTR'' \<or>
                          map_of tax (columns df ! i) = Some ''DRIVERS'' \<or>
                          columns df ! i = ''Survey_Name'' \<or>
                          columns df ! i = ''Processed_Date'')}"
    unfolding idx(2) labels by (auto simp: nth_mem) (metis nth_mem)+
  moreover have "extract_ltr_and_drivers los df s tax =
             Inr (Some \<lparr>columns = map ((!) (columns df)) idx,
                        rows = map (\<lambda>r. map ((!) r) idx) (rows df)\<rparr>)"
    using assms(4) idx(3)
    by (simp add: extract_ltr_and_drivers_def Let_def has_type_columns_of_type [OF assms(1)])
  ultimately show ?thesis using idx(1) by blast
qed

lemma extract_none:
  assumes "distinct (map fst tax)"
    and "\<not> has_type tax ''LTR'' df" and "\<not> has_type tax ''DRIVERS'' df"
  shows "extract_ltr_and_drivers los df s tax = Inr None"
  using assms(2,3)
  by (simp add: extract_ltr_and_drivers_def Let_def has_type_columns_of_type [OF assms(1)])

lemma extract_none_not_collected:
  assumes "appended_frame e m tax s = Some df"
    and "extract_ltr_and_drivers (list_of_set e) df s tax = Inr None"
  shows "nps_driver_data (process_survey e m tax st s) = nps_driver_data st \<and>
         all_survey_data (process_survey e m tax st s) = all_survey_data st @ [df]"
  using assms
  by (simp add: nps_driver_data_process_survey all_survey_data_process_survey
        call_extract_ltr_and_drivers_def)

lemma select_columns_subset:
  "set labels \<subseteq> set (columns df) \<Longrightarrow> \<exists>d. select_columns df labels = Inr d"
  unfolding select_columns_def Let_def by (simp add: subset_iff)

lemma columns_of_type_subset: "set (columns_of_type tax ty df) \<subseteq> set (columns df)"
  by (auto simp: columns_of_type_def)

lemma extract_never_raises:
  assumes "\<And>xs. set (los xs) \<subseteq> set xs"
  shows "extract_ltr_and_drivers los df s tax \<noteq> Inl err"
proof -
  let ?all = "columns_of_type tax ''STANDARD'' df @ columns_of_type tax ''LTR'' df @
              columns_of_type tax ''DRIVERS'' df @
              filter (\<lambda>col. col \<in> set (columns df)) [''Survey_Name'', ''Processed_Date'']"
  have "set ?all \<subseteq> set (columns df)"
    using columns_of_type_subset [of tax _ df] by auto
  then have "set (los ?all) \<subseteq> set (columns df)"
    using assms by blast
  then obtain d where "select_columns df (los ?all) = Inr d"
    using select_columns_subset by blast
  then show ?thesis
    by (simp add: extract_ltr_and_drivers_def Let_def)
qed


lemma example_appended_3:
  "appended_frame example_env example_mapper example_taxonomy ''survey_3'' = Some loaded_frame_3"
  by code_simp

lemma example_types:
  "has_type example_taxonomy ''LTR'' frame_1 \<and>
   \<not> has_type example_taxonomy ''LTR'' loaded_frame_3 \<and>
   \<not> has_type example_taxonomy ''DRIVERS'' loaded_frame_3 \<and>
   distinct (map fst example_taxonomy)"
  by code_simp


text \<open>
  C6. The dict \<open>tax\<close> has distinct keys and \<open>los\<close>, the list of a set, has the elements
  of its argument, each once. For every dataset \<open>df\<close>: if some column of \<open>df\<close> has the type
  \<open>LTR\<close> or \<open>DRIVERS\<close>, \<open>extract_ltr_and_drivers\<close> returns the projection of \<open>df\<close>
  onto its columns of type \<open>STANDARD\<close>, \<open>LTR\<close> or \<open>DRIVERS\<close> and its bookkeeping
  columns \<open>Survey_Name\<close> and \<open>Processed_Date\<close>: the frame of the columns at the positions
  \<open>idx\<close>, which are exactly the positions of these columns, each once, with every row cut
  down to the same positions. Otherwise it returns \<open>None\<close>, in particular when every
  column is of type \<open>STANDARD\<close> or \<open>METADATA\<close>. A survey whose frame \<open>df\<close> is appended to
  \<^verbatim>\<open>all_survey_data\<close> and for which the function returns \<open>None\<close> adds nothing to
  \<^verbatim>\<open>nps_driver_data\<close>.
\<close>

theorem extract_ltr_and_drivers_projection:
  assumes "distinct (map fst tax)"
    and "\<And>xs. set (los xs) = set xs" and "\<And>xs. distinct (los xs)"
  shows "(has_type tax ''LTR'' df \<or> has_type tax ''DRIVERS'' df \<longrightarrow>
            (\<exists>idx. distinct idx \<and>
               set idx = {i. i < length (columns df) \<and>
                             (map_of tax (columns df ! i) = Some ''STANDARD'' \<or>
                              map_of tax (columns df ! i) = Some ''LTR'' \<or>
                              map_of tax (columns df ! i) = Some ''DRIVERS'' \<or>
                              columns df ! i = ''Survey_Name'' \<or>
                              columns df ! i = ''Processed_Date'')} \<and>
               extract_ltr_and_drivers los df s tax =
                 Inr (Some \<lparr>columns = map ((!) (columns df)) idx,
                            rows = map (\<lambda>r. map ((!) r) idx) (rows df)\<rparr>))) \<and>
         (\<not> has_type tax ''LTR'' df \<and> \<not> has_type tax ''DRIVERS'' df \<longrightarrow>
            extract_ltr_and_drivers los df s tax = Inr None) \<and>
         ((\<forall>c \<in> set (columns df). map_of tax c = Some ''STANDARD'' \<or> map_of tax c = Some ''METADATA'') \<longrightarrow>
            extract_ltr_and_drivers los df s tax = Inr None) \<and>
         (\<forall>e m st. list_of_set e = los \<and> appended_frame e m tax s = Some df \<and>
            extract_ltr_and_drivers los df s tax = Inr None \<longrightarrow>
            nps_driver_data (process_survey e m tax st s) = nps_driver_data st \<and>
            all_survey_data (process_survey e m tax st s) = all_survey_data st @ [df])"
proof (intro conjI impI allI)
  assume "has_type tax ''LTR'' df \<or> has_type tax ''DRIVERS'' df"
  then show "\<exists>idx. distinct idx \<and>
               set idx = {i. i < length (columns df) \<and>
                             (map_of tax (columns df ! i) = Some ''STANDARD'' \<or>
                              map_of tax (columns df ! i) = Some ''LTR'' \<or>
                              map_of tax (columns df ! i) = Some ''DRIVERS'' \<or>
                              columns df ! i = ''Survey_Name'' \<or>
                              columns df ! i = ''Processed_Date'')} \<and>
               extract_ltr_and_drivers los df s tax =
                 Inr (Some \<lparr>columns = map ((!) (columns df)) idx,
                            rows = map (\<lambda>r. map ((!) r) idx) (rows df)\<rparr>)"
    by (rule extract_some [OF assms])
next
  assume "\<not> has_type tax ''LTR'' df \<and> \<not> has_type tax ''DRIVERS'' df"
  then show "extract_ltr_and_drivers los df s tax = Inr None"
    using extract_none [OF assms(1)] by blast
next
  assume only: "\<forall>c \<in> set (columns df). map_of tax c = Some ''STANDARD'' \<or> map_of tax c = Some ''METADATA''"
  have "\<not> has_type tax ''LTR'' df"
    using only by (auto simp: has_type_def)
  moreover have "\<not> has_type tax ''DRIVERS'' df"
    using only by (auto simp: has_type_def)
  ultimately show "extract_ltr_and_drivers los df s tax = Inr None"
    using extract_none [OF assms(1)] by blast
next
  fix e m st
  assume h: "list_of_set e = los \<and> appended_frame e m tax s = Some df \<and>
            extract_ltr_and_drivers los df s tax = Inr None"
  then show "nps_driver_data (process_survey e m tax st s) = nps_driver_data st"
    using extract_none_not_collected [of e m tax s df st] by simp
  from h show "all_survey_data (process_survey e m tax st s) = all_survey_data st @ [df]"
    using extract_none_not_collected [of e m tax s df st] by simp
qed


theorem extract_ltr_and_drivers_projection_witness:
  "distinct (map fst example_taxonomy) \<and>
   (\<forall>xs :: string list. set (remdups xs) = set xs) \<and>
   (\<forall>xs :: string list. distinct (remdups xs)) \<and>
   has_type example_taxonomy ''LTR'' frame_1 \<and>
   (\<exists>idx. distinct idx \<and>
      set idx = {i. i < length (columns frame_1) \<and>
                    (map_of example_taxonomy (columns frame_1 ! i) = Some ''STANDARD'' \<or>
                     map_of example_taxonomy (columns frame_1 ! i) = Some ''LTR'' \<or>
                     map_of example_taxonomy (columns frame_1 ! i) = Some ''DRIVERS'' \<or>
                     columns frame_1 ! i = ''Survey_Name'' \<or>
                     columns frame_1 ! i = ''Processed_Date'')} \<and>
      extract_ltr_and_drivers remdups frame_1 ''survey_1'' example_taxonomy =
        Inr (Some \<lparr>columns = map ((!) (columns frame_1)) idx,
                   rows = map (\<lambda>r. map ((!) r) idx) (rows frame_1)\<rparr>)) \<and>
   \<not> has_type example_taxonomy ''LTR'' loaded_frame_3 \<and>
   \<not> has_type example_taxonomy ''DRIVERS'' loaded_frame_3 \<and>
   extract_ltr_and_drivers remdups loaded_frame_3 ''survey_3'' example_taxonomy = Inr None \<and>
   appended_frame example_env example_mapper example_taxonomy ''survey_3'' = Some loaded_frame_3 \<and>
   nps_driver_data (process_survey example_env example_mapper example_taxonomy initial_state ''survey_3'')
     = nps_driver_data initial_state \<and>
   all_survey_data (process_survey example_env example_mapper example_taxonomy initial_state ''survey_3'')
     = all_survey_data initial_state @ [loaded_frame_3]"
proof -
  have d: "distinct (map fst example_taxonomy)" using example_types by blast
  have s1: "\<And>xs :: string list. set (remdups xs) = set xs" by simp
  have s2: "\<And>xs :: string list. distinct (remdups xs)" by simp
  have l1: "has_type example_taxonomy ''LTR'' frame_1" using example_types by blast
  have n3: "\<not> has_type example_taxonomy ''LTR'' loaded_frame_3 \<and>
            \<not> has_type example_taxonomy ''DRIVERS'' loaded_frame_3"
    using example_types by blast
  have los: "list_of_set example_env = remdups" by (simp add: example_env_def)
  note p1 = extract_ltr_and_drivers_projection [of example_taxonomy remdups frame_1 "''survey_1''",
      OF d s1 s2, THEN conjunct1, THEN mp, OF disjI1, OF l1]
  note p3 = extract_ltr_and_drivers_projection [of example_taxonomy remdups loaded_frame_3
      "''survey_3''", OF d s1 s2]
  have none3: "extract_ltr_and_drivers remdups loaded_frame_3 ''survey_3'' example_taxonomy = Inr None"
    using p3 [THEN conjunct2, THEN conjunct1, THEN mp, OF n3] .
  have lists: "nps_driver_data (process_survey example_env example_mapper example_taxonomy
                  initial_state ''survey_3'') = nps_driver_data initial_state \<and>
      all_survey_data (process_survey example_env example_mapper example_taxonomy initial_state
                  ''survey_3'') = all_survey_data initial_state @ [loaded_frame_3]"
    using p3 [THEN conjunct2, THEN conjunct2, THEN conjunct2, rule_format,
        of example_env example_mapper initial_state] los example_appended_3 none3
    by blast
  show ?thesis
    using d s1 s2 l1 p1 n3 none3 example_appended_3 lists by blast
qed

section \<open>A survey that fails after its frame was appended\<close>

text \<open>
  Once \<^verbatim>\<open>extract_ltr_and_drivers\<close> is defined it does not raise, nothing after
  \<^verbatim>\<open>all_survey_data.append\<close> fails, and a survey whose status is not \<open>Success\<close>
  leaves both lists of frames as they were.
\<close>

lemma success_when_appended:
  assumes "appended_frame e m tax s = Some d"
    and "call_extract_ltr_and_drivers e d s tax = Inr sub"
  shows "Processing_Status (last (processing_summary (process_survey e m tax st s))) = ''Success''"
  using assms
  by (auto simp: process_survey_def try_body_def appended_frame_def Let_def
           split: sum.splits option.splits if_splits)

lemma failed_survey_adds_nothing_when_defined:
  assumes "extract_defined e" and "\<And>xs. set (list_of_set e xs) \<subseteq> set xs"
    and "Processing_Status (last (processing_summary (process_survey e m tax st s))) \<noteq> ''Success''"
  shows "all_survey_data (process_survey e m tax st s) = all_survey_data st \<and>
         nps_driver_data (process_survey e m tax st s) = nps_driver_data st"
proof (cases "appended_frame e m tax s")
  case None
  then show ?thesis
    by (simp add: all_survey_data_process_survey nps_driver_data_process_survey)
next
  case (Some d)
  have "\<And>err. call_extract_ltr_and_drivers e d s tax \<noteq> Inl err"
    using assms(1) extract_never_raises [OF assms(2)]
    by (simp add: call_extract_ltr_and_drivers_def)
  then obtain sub where "call_extract_ltr_and_drivers e d s tax = Inr sub"
    by (cases "call_extract_ltr_and_drivers e d s tax") auto
  then have "Processing_Status (last (processing_summary (process_survey e m tax st s))) = ''Success''"
    using Some by (rule success_when_appended [rotated])
  with assms(3) show ?thesis by simp
qed


text \<open>
  C10 fails on the notebook run in the order of its cells. The loop appends the frame of
  \<open>survey_1\<close> to \<^verbatim>\<open>all_survey_data\<close> and then calls \<^verbatim>\<open>extract_ltr_and_drivers\<close>,
  which the next cell defines: the \<^verbatim>\<open>NameError\<close> is caught, the status of the survey is
  an error, and its two rows are in the full combined output all the same.
\<close>

theorem failed_survey_contributes_in_file_order:
  "extract_defined file_order_env = False \<and>
   map Processing_Status (processing_summary
     (process_surveys file_order_env example_mapper example_taxonomy initial_state [''survey_1''])) =
     [''Error: name 'extract_ltr_and_drivers' is not defined''] \<and>
   map (\<lambda>d. length (rows d)) (all_survey_data
     (process_surveys file_order_env example_mapper example_taxonomy initial_state [''survey_1''])) = [2] \<and>
   (case combined_all_data
      (process_surveys file_order_env example_mapper example_taxonomy initial_state [''survey_1'']) of
      Inr (Some c) \<Rightarrow> length (rows c) | _ \<Rightarrow> 0) = 2"
  by code_simp

section \<open>Output generation: what is written, and where\<close>

lemma archive_file_eq:
  "archive_file ''Combined_LTR_Drivers_'' TS = ''../rag_outputs/archive/Combined_LTR_Drivers_'' @ TS @ ''.csv''"
  "archive_file ''Combined_All_Surveys_'' TS = ''../rag_outputs/archive/Combined_All_Surveys_'' @ TS @ ''.csv''"
  "archive_file ''Processing_Summary_'' TS = ''../rag_outputs/archive/Processing_Summary_'' @ TS @ ''.csv''"
  by (simp_all add: archive_file_def path_join_def ARCHIVE_DIR_def)

lemma current_file_eq:
  "current_file ''combined_ltr_drivers.csv'' = ''../rag_outputs/current/combined_ltr_drivers.csv''"
  "current_file ''combined_all_surveys.csv'' = ''../rag_outputs/current/combined_all_surveys.csv''"
  "current_file ''processing_summary.csv'' = ''../rag_outputs/current/processing_summary.csv''"
  by (simp_all add: current_file_def path_join_def RAG_OUTPUT_DIR_def)

lemma writes_append: "writes (xs @ ys) = writes xs @ writes ys"
  by (induction xs rule: writes.induct) simp_all

lemma untouched: "p \<notin> fst ` set (writes ops) \<Longrightarrow> foldl run_op fs ops p = fs p"
  by (induction ops arbitrary: fs rule: writes.induct) simp_all

lemma last_write:
  "distinct (map fst (writes ops)) \<Longrightarrow> (p, c) \<in> set (writes ops) \<Longrightarrow> foldl run_op fs ops p = Some c"
proof (induction ops arbitrary: fs rule: writes.induct)
  case 1
  then show ?case by simp
next
  case (2 d ops)
  then show ?case by simp
next
  case (3 path c' ops)
  show ?case
  proof (cases "(p, c) \<in> set (writes ops)")
    case True
    then show ?thesis using 3 by simp
  next
    case False
    then have w: "path = p" "c' = c" using "3.prems" by auto
    then have "p \<notin> fst ` set (writes ops)" using "3.prems"(1) by auto
    then have "foldl run_op (fs(p \<mapsto> c)) ops p = (fs(p \<mapsto> c)) p"
      by (rule untouched)
    then show ?thesis using w by simp
  qed
qed

lemma output_paths_distinct:
  "distinct [archive_file ''Combined_LTR_Drivers_'' TS, current_file ''combined_ltr_drivers.csv'',
             archive_file ''Combined_All_Surveys_'' TS, current_file ''combined_all_surveys.csv'',
             archive_file ''Processing_Summary_'' TS, current_file ''processing_summary.csv'']"
  by (simp add: archive_file_eq current_file_eq)

lemma other_archive_not_written:
  assumes "TS' \<noteq> TS"
    and "name \<in> {''Combined_LTR_Drivers_'', ''Combined_All_Surveys_'', ''Processing_Summary_''}"
  shows "archive_file name TS' \<notin>
           {archive_file ''Combined_LTR_Drivers_'' TS, current_file ''combined_ltr_drivers.csv'',
            archive_file ''Combined_All_Surveys_'' TS, current_file ''combined_all_surveys.csv'',
            archive_file ''Processing_Summary_'' TS, current_file ''processing_summary.csv''}"
  using assms by (auto simp: archive_file_eq current_file_eq)

lemma writes_write_if_any:
  "writes (write_if_any archive_name TS current_name combined) =
     (case combined of
        None \<Rightarrow> []
      | Some c \<Rightarrow> [(archive_file archive_name TS, Frame c), (current_file current_name, Frame c)])"
  by (simp add: write_if_any_def write_twice_def split: option.split)

lemma writes_generate_outputs:
  "writes (snd (generate_outputs TS st)) =
     (case combined_ltr_drivers st of
        Inl err \<Rightarrow> []
      | Inr ltr \<Rightarrow>
          writes (write_if_any ''Combined_LTR_Drivers_'' TS ''combined_ltr_drivers.csv'' ltr) @
          (case surveys_included ltr of
             Inl err \<Rightarrow> []
           | Inr printed \<Rightarrow>
               (case combined_all_data st of
                  Inl err \<Rightarrow> []
                | Inr full \<Rightarrow>
                    writes (write_if_any ''Combined_All_Surveys_'' TS ''combined_all_surveys.csv''
                              full) @
                    (case surveys_included full of
                       Inl err \<Rightarrow> []
                     | Inr printed \<Rightarrow>
                         [(archive_file ''Processing_Summary_'' TS,
                           Summary (processing_summary st)),
                          (current_file ''processing_summary.csv'',
                           Summary (processing_summary st))]))))"
  by (auto simp: generate_outputs_def Let_def writes_append write_twice_def split: sum.splits)

lemma writes_returned:
  assumes "combined_ltr_drivers st = Inr ltr" and "surveys_included ltr = Inr ()"
    and "combined_all_data st = Inr full" and "surveys_included full = Inr ()"
  shows "writes (snd (generate_outputs TS st)) =
     (case ltr of
        None \<Rightarrow> []
      | Some c \<Rightarrow> [(archive_file ''Combined_LTR_Drivers_'' TS, Frame c),
                    (current_file ''combined_ltr_drivers.csv'', Frame c)]) @
     (case full of
        None \<Rightarrow> []
      | Some c \<Rightarrow> [(archive_file ''Combined_All_Surveys_'' TS, Frame c),
                    (current_file ''combined_all_surveys.csv'', Frame c)]) @
     [(archive_file ''Processing_Summary_'' TS, Summary (processing_summary st)),
      (current_file ''processing_summary.csv'', Summary (processing_summary st))]"
  using assms by (simp add: writes_generate_outputs writes_write_if_any)

lemma written_paths_subset:
  "fst ` set (writes (snd (generate_outputs TS st))) \<subseteq>
     {archive_file ''Combined_LTR_Drivers_'' TS, current_file ''combined_ltr_drivers.csv'',
      archive_file ''Combined_All_Surveys_'' TS, current_file ''combined_all_surveys.csv'',
      archive_file ''Processing_Summary_'' TS, current_file ''processing_summary.csv''}"
  unfolding writes_generate_outputs writes_write_if_any
  by (auto split: sum.splits option.splits)

lemma written_paths_distinct: "distinct (map fst (writes (snd (generate_outputs TS st))))"
  using output_paths_distinct [of TS]
  unfolding writes_generate_outputs writes_write_if_any
  by (auto split: sum.splits option.splits)

lemma written_content:
  "(p, c) \<in> set (writes (snd (generate_outputs TS st))) \<Longrightarrow> write_outputs TS st fs p = Some c"
  unfolding write_outputs_def by (rule last_write [OF written_paths_distinct])

lemma unwritten_content:
  "p \<notin> fst ` set (writes (snd (generate_outputs TS st))) \<Longrightarrow> write_outputs TS st fs p = fs p"
  unfolding write_outputs_def by (rule untouched)

lemma other_archive_kept:
  assumes "TS' \<noteq> TS"
    and "name \<in> {''Combined_LTR_Drivers_'', ''Combined_All_Surveys_'', ''Processing_Summary_''}"
  shows "write_outputs TS st fs (archive_file name TS') = fs (archive_file name TS')"
proof -
  have "archive_file name TS' \<notin> fst ` set (writes (snd (generate_outputs TS st)))"
    using other_archive_not_written [OF assms] written_paths_subset [of TS st] by blast
  then show ?thesis by (rule unwritten_content)
qed

lemma summary_written:
  assumes "combined_ltr_drivers st = Inr ltr" and "surveys_included ltr = Inr ()"
    and "combined_all_data st = Inr full" and "surveys_included full = Inr ()"
  shows "write_outputs TS st fs (archive_file ''Processing_Summary_'' TS) =
           Some (Summary (processing_summary st)) \<and>
         write_outputs TS st fs (current_file ''processing_summary.csv'') =
           Some (Summary (processing_summary st))"
  by (auto intro!: written_content simp: writes_returned [OF assms])

lemma full_written:
  assumes "combined_ltr_drivers st = Inr ltr" and "surveys_included ltr = Inr ()"
    and "combined_all_data st = Inr (Some c)" and "surveys_included (Some c) = Inr ()"
  shows "write_outputs TS st fs (archive_file ''Combined_All_Surveys_'' TS) = Some (Frame c) \<and>
         write_outputs TS st fs (current_file ''combined_all_surveys.csv'') = Some (Frame c)"
  by (auto intro!: written_content simp: writes_returned [OF assms])

lemma ltr_written:
  assumes "combined_ltr_drivers st = Inr (Some c)" and "surveys_included (Some c) = Inr ()"
    and "combined_all_data st = Inr full" and "surveys_included full = Inr ()"
  shows "write_outputs TS st fs (archive_file ''Combined_LTR_Drivers_'' TS) = Some (Frame c) \<and>
         write_outputs TS st fs (current_file ''combined_ltr_drivers.csv'') = Some (Frame c)"
  by (auto intro!: written_content simp: writes_returned [OF assms])

lemma full_omitted:
  assumes "combined_ltr_drivers st = Inr ltr" and "surveys_included ltr = Inr ()"
    and "combined_all_data st = Inr None" and "surveys_included None = Inr ()"
  shows "write_outputs TS st fs (archive_file ''Combined_All_Surveys_'' TS) =
           fs (archive_file ''Combined_All_Surveys_'' TS) \<and>
         write_outputs TS st fs (current_file ''combined_all_surveys.csv'') =
           fs (current_file ''combined_all_surveys.csv'')"
proof -
  have "archive_file ''Combined_All_Surveys_'' TS \<notin> fst ` set (writes (snd (generate_outputs TS st)))"
    using output_paths_distinct [of TS]
    unfolding writes_returned [OF assms] by (auto split: option.splits)
  moreover have "current_file ''combined_all_surveys.csv'' \<notin>
      fst ` set (writes (snd (generate_outputs TS st)))"
    using output_paths_distinct [of TS]
    unfolding writes_returned [OF assms] by (auto split: option.splits)
  ultimately show ?thesis by (simp add: unwritten_content)
qed

lemma ltr_omitted:
  assumes "combined_ltr_drivers st = Inr None" and "surveys_included None = Inr ()"
    and "combined_all_data st = Inr full" and "surveys_included full = Inr ()"
  shows "write_outputs TS st fs (archive_file ''Combined_LTR_Drivers_'' TS) =
           fs (archive_file ''Combined_LTR_Drivers_'' TS) \<and>
         write_outputs TS st fs (current_file ''combined_ltr_drivers.csv'') =
           fs (current_file ''combined_ltr_drivers.csv'')"
proof -
  have "archive_file ''Combined_LTR_Drivers_'' TS \<notin> fst ` set (writes (snd (generate_outputs TS st)))"
    using output_paths_distinct [of TS]
    unfolding writes_returned [OF assms] by (auto split: option.splits)
  moreover have "current_file ''combined_ltr_drivers.csv'' \<notin>
      fst ` set (writes (snd (generate_outputs TS st)))"
    using output_paths_distinct [of TS]
    unfolding writes_returned [OF assms] by (auto split: option.splits)
  ultimately show ?thesis by (simp add: unwritten_content)
qed

lemma surveys_included_iff:
  "surveys_included None = Inr () \<and>
   (\<forall>c. surveys_included (Some c) = Inr () \<longleftrightarrow> ''Survey_Name'' \<in> set (columns c))"
  by (simp add: surveys_included_def)

lemma combine_if_any_returns:
  assumes "\<forall>d \<in> set frames. distinct (columns d) \<and> ''Survey_Name'' \<in> set (columns d)"
  shows "\<exists>x. combine_if_any frames = Inr x \<and> surveys_included x = Inr ()"
proof (cases "frames = []")
  case True
  then show ?thesis by (simp add: combine_if_any_def surveys_included_def)
next
  case False
  then obtain c where c: "pd_concat frames = Inr c"
    using pd_concat_returns assms by blast
  have "hd frames \<in> set frames" using False by simp
  then have "''Survey_Name'' \<in> set (columns (hd frames))"
    and "set (columns (hd frames)) \<subseteq> set (columns c)"
    using assms columns_pd_concat [OF c] by blast+
  then have "surveys_included (Some c) = Inr ()"
    by (auto simp: surveys_included_def)
  then show ?thesis using False c by (simp add: combine_if_any_def)
qed

lemma combining_returns:
  assumes "\<forall>d \<in> set (nps_driver_data st) \<union> set (all_survey_data st).
             distinct (columns d) \<and> ''Survey_Name'' \<in> set (columns d)"
  shows "\<exists>ltr full. combined_ltr_drivers st = Inr ltr \<and> surveys_included ltr = Inr () \<and>
           combined_all_data st = Inr full \<and> surveys_included full = Inr ()"
proof -
  obtain ltr where "combine_if_any (nps_driver_data st) = Inr ltr \<and> surveys_included ltr = Inr ()"
    using combine_if_any_returns [of "nps_driver_data st"] assms by blast
  moreover obtain full where
    "combine_if_any (all_survey_data st) = Inr full \<and> surveys_included full = Inr ()"
    using combine_if_any_returns [of "all_survey_data st"] assms by blast
  ultimately show ?thesis
    unfolding combined_ltr_drivers_def combined_all_data_def by blast
qed

lemma combine_if_any_Inl:
  "combine_if_any frames = Inl err \<longleftrightarrow> frames \<noteq> [] \<and> pd_concat frames = Inl err"
  by (auto simp: combine_if_any_def split: sum.splits)

lemma writes_first_raises:
  assumes "combined_ltr_drivers st = Inl err"
  shows "fst (generate_outputs TS st) = Inl err \<and> writes (snd (generate_outputs TS st)) = []"
  using assms by (simp add: generate_outputs_def)

lemma writes_first_report_raises:
  assumes "combined_ltr_drivers st = Inr ltr" and "surveys_included ltr = Inl err"
  shows "fst (generate_outputs TS st) = Inl err \<and>
         writes (snd (generate_outputs TS st)) =
           (case ltr of
              None \<Rightarrow> []
            | Some c \<Rightarrow> [(archive_file ''Combined_LTR_Drivers_'' TS, Frame c),
                          (current_file ''combined_ltr_drivers.csv'', Frame c)])"
  using assms by (simp add: generate_outputs_def writes_write_if_any)

lemma writes_second_raises:
  assumes "combined_ltr_drivers st = Inr ltr" and "surveys_included ltr = Inr ()"
    and "combined_all_data st = Inl err"
  shows "fst (generate_outputs TS st) = Inl err \<and>
         writes (snd (generate_outputs TS st)) =
           (case ltr of
              None \<Rightarrow> []
            | Some c \<Rightarrow> [(archive_file ''Combined_LTR_Drivers_'' TS, Frame c),
                          (current_file ''combined_ltr_drivers.csv'', Frame c)])"
  using assms by (simp add: generate_outputs_def writes_write_if_any)

lemma writes_second_report_raises:
  assumes "combined_ltr_drivers st = Inr ltr" and "surveys_included ltr = Inr ()"
    and "combined_all_data st = Inr full" and "surveys_included full = Inl err"
  shows "fst (generate_outputs TS st) = Inl err \<and>
         writes (snd (generate_outputs TS st)) =
           (case ltr of
              None \<Rightarrow> []
            | Some c \<Rightarrow> [(archive_file ''Combined_LTR_Drivers_'' TS, Frame c),
                          (current_file ''combined_ltr_drivers.csv'', Frame c)]) @
           (case full of
              None \<Rightarrow> []
            | Some c \<Rightarrow> [(archive_file ''Combined_All_Surveys_'' TS, Frame c),
                          (current_file ''combined_all_surveys.csv'', Frame c)])"
  using assms by (simp add: generate_outputs_def writes_write_if_any writes_append)

lemma example_runs:
  "combined_ltr_drivers first_run = Inr (Some (hd (nps_driver_data first_run))) \<and>
   surveys_included (Some (hd (nps_driver_data first_run))) = Inr () \<and>
   combined_all_data first_run = Inr (Some (hd (all_survey_data first_run))) \<and>
   surveys_included (Some (hd (all_survey_data first_run))) = Inr () \<and>
   combined_ltr_drivers second_run = Inr None \<and>
   surveys_included None = Inr () \<and>
   combined_all_data second_run = Inr None \<and>
   ''20240101_120000'' \<noteq> ''20240101_120001'' \<and>
   list_all (\<lambda>d. distinct (columns d) \<and> ''Survey_Name'' \<in> set (columns d))
     (nps_driver_data first_run @ all_survey_data first_run)"
  by code_simp

lemma example_raising_runs:
  "combined_ltr_drivers repeated_ltr_label_run =
     Inl ''Reindexing only valid with uniquely valued Index objects'' \<and>
   combined_ltr_drivers repeated_label_run =
     Inr (Some \<lparr>columns = [''ResponseID'', ''NPS_Score'', ''Survey_Name'', ''Processed_Date''],
                rows = [[Text ''r1'', Num 8, Text ''survey_6'', Time 7],
                        [Text ''r1'', Num 9, Text ''survey_1'', Time 7],
                        [Text ''r2'', Num 3, Text ''survey_1'', Time 7]]\<rparr>) \<and>
   surveys_included
     (Some \<lparr>columns = [''ResponseID'', ''NPS_Score'', ''Survey_Name'', ''Processed_Date''],
            rows = [[Text ''r1'', Num 8, Text ''survey_6'', Time 7],
                    [Text ''r1'', Num 9, Text ''survey_1'', Time 7],
                    [Text ''r2'', Num 3, Text ''survey_1'', Time 7]]\<rparr>) = Inr () \<and>
   combined_all_data repeated_label_run =
     Inl ''Reindexing only valid with uniquely valued Index objects''"
  by code_simp

lemma example_bare_runs:
  "combined_ltr_drivers bare_ltr_run = Inr (Some frame_1) \<and>
   surveys_included (Some frame_1) = Inl ''KeyError: Survey_Name'' \<and>
   combined_ltr_drivers bare_full_run = Inr None \<and>
   combined_all_data bare_full_run = Inr (Some frame_3) \<and>
   surveys_included (Some frame_3) = Inl ''KeyError: Survey_Name''"
  by code_simp

text \<open>
  C8, as the claim states it, fails. The operations of the output cell after the run
  over \<open>survey_1\<close> are directory creations and six CSV writes, each straight to its
  archive path or to its current path: no temporary path is written and nothing is
  renamed or copied. The archive file is overwritten when the cell is executed again
  with the same \<^verbatim>\<open>TIMESTAMP\<close>, which the configuration cell sets once: after the lists
  of a second run are written, the archived summary of the first run is gone. The summary
  is not written on every run: after the run over \<open>survey_6\<close> and \<open>survey_1\<close>, both
  with the status \<open>Success\<close>, \<^verbatim>\<open>pd.concat\<close> raises on the full frames, of which one
  repeats a label, and the cell ends after the LTR and driver output with neither summary
  file written. And the full output is written when nothing succeeded: after the run over
  \<open>survey_1\<close> in the order of the file the only status is an error, and the full
  combined output is written with the summary.
\<close>

theorem outputs_not_as_claimed_counterexample:
  "map fst (writes (snd (generate_outputs ''20240101_120000'' first_run))) =
     [''../rag_outputs/archive/Combined_LTR_Drivers_20240101_120000.csv'',
      ''../rag_outputs/current/combined_ltr_drivers.csv'',
      ''../rag_outputs/archive/Combined_All_Surveys_20240101_120000.csv'',
      ''../rag_outputs/current/combined_all_surveys.csv'',
      ''../rag_outputs/archive/Processing_Summary_20240101_120000.csv'',
      ''../rag_outputs/current/processing_summary.csv''] \<and>
   write_outputs ''20240101_120000'' first_run Map.empty
       ''../rag_outputs/archive/Processing_Summary_20240101_120000.csv'' =
     Some (Summary (processing_summary first_run)) \<and>
   write_outputs ''20240101_120000'' second_run
       (write_outputs ''20240101_120000'' first_run Map.empty)
       ''../rag_outputs/archive/Processing_Summary_20240101_120000.csv'' =
     Some (Summary (processing_summary second_run)) \<and>
   processing_summary second_run \<noteq> processing_summary first_run \<and>
   map Processing_Status (processing_summary repeated_label_run) = [''Success'', ''Success''] \<and>
   fst (generate_outputs ''20240101_120000'' repeated_label_run) =
     Inl ''Reindexing only valid with uniquely valued Index objects'' \<and>
   map fst (writes (snd (generate_outputs ''20240101_120000'' repeated_label_run))) =
     [''../rag_outputs/archive/Combined_LTR_Drivers_20240101_120000.csv'',
      ''../rag_outputs/current/combined_ltr_drivers.csv''] \<and>
   write_outputs ''20240101_120000'' repeated_label_run Map.empty
       ''../rag_outputs/current/processing_summary.csv'' = None \<and>
   write_outputs ''20240101_120000'' repeated_label_run Map.empty
       ''../rag_outputs/archive/Processing_Summary_20240101_120000.csv'' = None \<and>
   map Processing_Status (processing_summary file_order_run) =
     [''Error: name 'extract_ltr_and_drivers' is not defined''] \<and>
   map fst (writes (snd (generate_outputs ''20240101_120000'' file_order_run))) =
     [''../rag_outputs/archive/Combined_All_Surveys_20240101_120000.csv'',
      ''../rag_outputs/current/combined_all_surveys.csv'',
      ''../rag_outputs/archive/Processing_Summary_20240101_120000.csv'',
      ''../rag_outputs/current/processing_summary.csv'']"
  by code_simp

text \<open>
  C8, amended. For every execution of the output cell, with any \<^verbatim>\<open>TIMESTAMP\<close>, any
  lists and any files on disk, the only writes are CSV writes straight to the three
  archive paths, which carry the \<^verbatim>\<open>TIMESTAMP\<close>, and to the three fixed current paths,
  and the archive files of every other \<^verbatim>\<open>TIMESTAMP\<close> hold what they held before. When
  the cell reaches its last output, that is when \<^verbatim>\<open>pd.concat\<close> raises on neither list
  and each combined frame has a column \<open>Survey_Name\<close>, the writes are, in this order:
  the combined LTR and driver frame to its archive path and to its current path, when
  \<^verbatim>\<open>nps_driver_data\<close> is not empty; the full combined frame to its archive path and to
  its current path, when \<^verbatim>\<open>all_survey_data\<close> is not empty; the summary to its archive
  path and to its current path, whatever the lists hold. After the execution each
  written path holds what was written to it, the same content at the archive path and at
  the current path, and the two paths of an output that is omitted hold what they held
  before. The cell reaches its last output when no frame of the lists repeats a label
  and each has a column \<open>Survey_Name\<close>. Otherwise the cell ends with the exception and
  the summary is not written: with nothing written when \<^verbatim>\<open>pd.concat\<close> raises on
  \<^verbatim>\<open>nps_driver_data\<close>; after the LTR and driver output when its frame has no column
  \<open>Survey_Name\<close> or \<^verbatim>\<open>pd.concat\<close> raises on \<^verbatim>\<open>all_survey_data\<close>; after the full
  output when its frame has no column \<open>Survey_Name\<close>.
\<close>

theorem outputs_written_directly_twice:
  "fst ` set (writes (snd (generate_outputs TS st))) \<subseteq>
     {archive_file ''Combined_LTR_Drivers_'' TS, current_file ''combined_ltr_drivers.csv'',
      archive_file ''Combined_All_Surveys_'' TS, current_file ''combined_all_surveys.csv'',
      archive_file ''Processing_Summary_'' TS, current_file ''processing_summary.csv''} \<and>
   (\<forall>TS' name. TS' \<noteq> TS \<and>
        name \<in> {''Combined_LTR_Drivers_'', ''Combined_All_Surveys_'', ''Processing_Summary_''} \<longrightarrow>
      write_outputs TS st fs (archive_file name TS') = fs (archive_file name TS')) \<and>
   (\<forall>ltr full. combined_ltr_drivers st = Inr ltr \<and> surveys_included ltr = Inr () \<and>
        combined_all_data st = Inr full \<and> surveys_included full = Inr () \<longrightarrow>
      writes (snd (generate_outputs TS st)) =
        (case ltr of
           None \<Rightarrow> []
         | Some c \<Rightarrow> [(archive_file ''Combined_LTR_Drivers_'' TS, Frame c),
                       (current_file ''combined_ltr_drivers.csv'', Frame c)]) @
        (case full of
           None \<Rightarrow> []
         | Some c \<Rightarrow> [(archive_file ''Combined_All_Surveys_'' TS, Frame c),
                       (current_file ''combined_all_surveys.csv'', Frame c)]) @
        [(archive_file ''Processing_Summary_'' TS, Summary (processing_summary st)),
         (current_file ''processing_summary.csv'', Summary (processing_summary st))] \<and>
      write_outputs TS st fs (archive_file ''Processing_Summary_'' TS) =
        Some (Summary (processing_summary st)) \<and>
      write_outputs TS st fs (current_file ''processing_summary.csv'') =
        Some (Summary (processing_summary st)) \<and>
      (\<forall>c. full = Some c \<longrightarrow>
         write_outputs TS st fs (archive_file ''Combined_All_Surveys_'' TS) = Some (Frame c) \<and>
         write_outputs TS st fs (current_file ''combined_all_surveys.csv'') = Some (Frame c)) \<and>
      (full = None \<longrightarrow>
         write_outputs TS st fs (archive_file ''Combined_All_Surveys_'' TS) =
           fs (archive_file ''Combined_All_Surveys_'' TS) \<and>
         write_outputs TS st fs (current_file ''combined_all_surveys.csv'') =
           fs (current_file ''combined_all_surveys.csv'')) \<and>
      (\<forall>c. ltr = Some c \<longrightarrow>
         write_outputs TS st fs (archive_file ''Combined_LTR_Drivers_'' TS) = Some (Frame c) \<and>
         write_outputs TS st fs (current_file ''combined_ltr_drivers.csv'') = Some (Frame c)) \<and>
      (ltr = None \<longrightarrow>
         write_outputs TS st fs (archive_file ''Combined_LTR_Drivers_'' TS) =
           fs (archive_file ''Combined_LTR_Drivers_'' TS) \<and>
         write_outputs TS st fs (current_file ''combined_ltr_drivers.csv'') =
           fs (current_file ''combined_ltr_drivers.csv''))) \<and>
   (\<forall>err. combined_ltr_drivers st = Inl err \<longrightarrow>
      fst (generate_outputs TS st) = Inl err \<and> writes (snd (generate_outputs TS st)) = []) \<and>
   (\<forall>ltr err. combined_ltr_drivers st = Inr ltr \<and> surveys_included ltr = Inl err \<longrightarrow>
      fst (generate_outputs TS st) = Inl err \<and>
      writes (snd (generate_outputs TS st)) =
        (case ltr of
           None \<Rightarrow> []
         | Some c \<Rightarrow> [(archive_file ''Combined_LTR_Drivers_'' TS, Frame c),
                       (current_file ''combined_ltr_drivers.csv'', Frame c)])) \<and>
   (\<forall>ltr err. combined_ltr_drivers st = Inr ltr \<and> surveys_included ltr = Inr () \<and>
        combined_all_data st = Inl err \<longrightarrow>
      fst (generate_outputs TS st) = Inl err \<and>
      writes (snd (generate_outputs TS st)) =
        (case ltr of
           None \<Rightarrow> []
         | Some c \<Rightarrow> [(archive_file ''Combined_LTR_Drivers_'' TS, Frame c),
                       (current_file ''combined_ltr_drivers.csv'', Frame c)])) \<and>
   (\<forall>ltr full err. combined_ltr_drivers st = Inr ltr \<and> surveys_included ltr = Inr () \<and>
        combined_all_data st = Inr full \<and> surveys_included full = Inl err \<longrightarrow>
      fst (generate_outputs TS st) = Inl err \<and>
      writes (snd (generate_outputs TS st)) =
        (case ltr of
           None \<Rightarrow> []
         | Some c \<Rightarrow> [(archive_file ''Combined_LTR_Drivers_'' TS, Frame c),
                       (current_file ''combined_ltr_drivers.csv'', Frame c)]) @
        (case full of
           None \<Rightarrow> []
         | Some c \<Rightarrow> [(archive_file ''Combined_All_Surveys_'' TS, Frame c),
                       (current_file ''combined_all_surveys.csv'', Frame c)])) \<and>
   (\<forall>c. combined_ltr_drivers st = Inr (Some c) \<longleftrightarrow> nps_driver_data st \<noteq> [] \<and> pd_concat (nps_driver_data st) = Inr c) \<and>
   (combined_ltr_drivers st = Inr None \<longleftrightarrow> nps_driver_data st = []) \<and>
   (\<forall>err. combined_ltr_drivers st = Inl err \<longleftrightarrow> nps_driver_data st \<noteq> [] \<and> pd_concat (nps_driver_data st) = Inl err) \<and>
   (\<forall>c. combined_all_data st = Inr (Some c) \<longleftrightarrow> all_survey_data st \<noteq> [] \<and> pd_concat (all_survey_data st) = Inr c) \<and>
   (combined_all_data st = Inr None \<longleftrightarrow> all_survey_data st = []) \<and>
   (\<forall>err. combined_all_data st = Inl err \<longleftrightarrow> all_survey_data st \<noteq> [] \<and> pd_concat (all_survey_data st) = Inl err) \<and>
   (surveys_included None = Inr ()) \<and>
   (\<forall>c. surveys_included (Some c) = Inr () \<longleftrightarrow> ''Survey_Name'' \<in> set (columns c)) \<and>
   ((\<forall>d \<in> set (nps_driver_data st) \<union> set (all_survey_data st).
        distinct (columns d) \<and> ''Survey_Name'' \<in> set (columns d)) \<longrightarrow>
      (\<exists>ltr full. combined_ltr_drivers st = Inr ltr \<and> surveys_included ltr = Inr () \<and>
        combined_all_data st = Inr full \<and> surveys_included full = Inr ()))"
proof -
  have others: "\<forall>TS' name. TS' \<noteq> TS \<and>
        name \<in> {''Combined_LTR_Drivers_'', ''Combined_All_Surveys_'', ''Processing_Summary_''} \<longrightarrow>
      write_outputs TS st fs (archive_file name TS') = fs (archive_file name TS')"
    using other_archive_kept by blast
  have returned: "\<forall>ltr full. combined_ltr_drivers st = Inr ltr \<and> surveys_included ltr = Inr () \<and>
        combined_all_data st = Inr full \<and> surveys_included full = Inr () \<longrightarrow>
      writes (snd (generate_outputs TS st)) =
        (case ltr of
           None \<Rightarrow> []
         | Some c \<Rightarrow> [(archive_file ''Combined_LTR_Drivers_'' TS, Frame c),
                       (current_file ''combined_ltr_drivers.csv'', Frame c)]) @
        (case full of
           None \<Rightarrow> []
         | Some c \<Rightarrow> [(archive_file ''Combined_All_Surveys_'' TS, Frame c),
                       (current_file ''combined_all_surveys.csv'', Frame c)]) @
        [(archive_file ''Processing_Summary_'' TS, Summary (processing_summary st)),
         (current_file ''processing_summary.csv'', Summary (processing_summary st))] \<and>
      write_outputs TS st fs (archive_file ''Processing_Summary_'' TS) =
        Some (Summary (processing_summary st)) \<and>
      write_outputs TS st fs (current_file ''processing_summary.csv'') =
        Some (Summary (processing_summary st)) \<and>
      (\<forall>c. full = Some c \<longrightarrow>
         write_outputs TS st fs (archive_file ''Combined_All_Surveys_'' TS) = Some (Frame c) \<and>
         write_outputs TS st fs (current_file ''combined_all_surveys.csv'') = Some (Frame c)) \<and>
      (full = None \<longrightarrow>
         write_outputs TS st fs (archive_file ''Combined_All_Surveys_'' TS) =
           fs (archive_file ''Combined_All_Surveys_'' TS) \<and>
         write_outputs TS st fs (current_file ''combined_all_surveys.csv'') =
           fs (current_file ''combined_all_surveys.csv'')) \<and>
      (\<forall>c. ltr = Some c \<longrightarrow>
         write_outputs TS st fs (archive_file ''Combined_LTR_Drivers_'' TS) = Some (Frame c) \<and>
         write_outputs TS st fs (current_file ''combined_ltr_drivers.csv'') = Some (Frame c)) \<and>
      (ltr = None \<longrightarrow>
         write_outputs TS st fs (archive_file ''Combined_LTR_Drivers_'' TS) =
           fs (archive_file ''Combined_LTR_Drivers_'' TS) \<and>
         write_outputs TS st fs (current_file ''combined_ltr_drivers.csv'') =
           fs (current_file ''combined_ltr_drivers.csv''))"
  proof (intro allI impI)
    fix ltr full
    assume "combined_ltr_drivers st = Inr ltr \<and> surveys_included ltr = Inr () \<and>
        combined_all_data st = Inr full \<and> surveys_included full = Inr ()"
    then have l: "combined_ltr_drivers st = Inr ltr" and sl: "surveys_included ltr = Inr ()"
      and f: "combined_all_data st = Inr full" and sf: "surveys_included full = Inr ()"
      by blast+
    have full_some: "\<forall>c. full = Some c \<longrightarrow>
         write_outputs TS st fs (archive_file ''Combined_All_Surveys_'' TS) = Some (Frame c) \<and>
         write_outputs TS st fs (current_file ''combined_all_surveys.csv'') = Some (Frame c)"
      using full_written [OF l sl] f sf by blast
    have full_none: "full = None \<longrightarrow>
         write_outputs TS st fs (archive_file ''Combined_All_Surveys_'' TS) =
           fs (archive_file ''Combined_All_Surveys_'' TS) \<and>
         write_outputs TS st fs (current_file ''combined_all_surveys.csv'') =
           fs (current_file ''combined_all_surveys.csv'')"
      using full_omitted [OF l sl] f sf by blast
    have ltr_some: "\<forall>c. ltr = Some c \<longrightarrow>
         write_outputs TS st fs (archive_file ''Combined_LTR_Drivers_'' TS) = Some (Frame c) \<and>
         write_outputs TS st fs (current_file ''combined_ltr_drivers.csv'') = Some (Frame c)"
      using ltr_written [OF _ _ f sf] l sl by blast
    have ltr_none: "ltr = None \<longrightarrow>
         write_outputs TS st fs (archive_file ''Combined_LTR_Drivers_'' TS) =
           fs (archive_file ''Combined_LTR_Drivers_'' TS) \<and>
         write_outputs TS st fs (current_file ''combined_ltr_drivers.csv'') =
           fs (current_file ''combined_ltr_drivers.csv'')"
      using ltr_omitted [OF _ _ f sf] l sl by blast
    show "writes (snd (generate_outputs TS st)) =
        (case ltr of
           None \<Rightarrow> []
         | Some c \<Rightarrow> [(archive_file ''Combined_LTR_Drivers_'' TS, Frame c),
                       (current_file ''combined_ltr_drivers.csv'', Frame c)]) @
        (case full of
           None \<Rightarrow> []
         | Some c \<Rightarrow> [(archive_file ''Combined_All_Surveys_'' TS, Frame c),
                       (current_file ''combined_all_surveys.csv'', Frame c)]) @
        [(archive_file ''Processing_Summary_'' TS, Summary (processing_summary st)),
         (current_file ''processing_summary.csv'', Summary (processing_summary st))] \<and>
      write_outputs TS st fs (archive_file ''Processing_Summary_'' TS) =
        Some (Summary (processing_summary st)) \<and>
      write_outputs TS st fs (current_file ''processing_summary.csv'') =
        Some (Summary (processing_summary st)) \<and>
      (\<forall>c. full = Some c \<longrightarrow>
         write_outputs TS st fs (archive_file ''Combined_All_Surveys_'' TS) = Some (Frame c) \<and>
         write_outputs TS st fs (current_file ''combined_all_surveys.csv'') = Some (Frame c)) \<and>
      (full = None \<longrightarrow>
         write_outputs TS st fs (archive_file ''Combined_All_Surveys_'' TS) =
           fs (archive_file ''Combined_All_Surveys_'' TS) \<and>
         write_outputs TS st fs (current_file ''combined_all_surveys.csv'') =
           fs (current_file ''combined_all_surveys.csv'')) \<and>
      (\<forall>c. ltr = Some c \<longrightarrow>
         write_outputs TS st fs (archive_file ''Combined_LTR_Drivers_'' TS) = Some (Frame c) \<and>
         write_outputs TS st fs (current_file ''combined_ltr_drivers.csv'') = Some (Frame c)) \<and>
      (ltr = None \<longrightarrow>
         write_outputs TS st fs (archive_file ''Combined_LTR_Drivers_'' TS) =
           fs (archive_file ''Combined_LTR_Drivers_'' TS) \<and>
         write_outputs TS st fs (current_file ''combined_ltr_drivers.csv'') =
           fs (current_file ''combined_ltr_drivers.csv''))"
      by (intro conjI writes_returned [OF l sl f sf]
          summary_written [OF l sl f sf, THEN conjunct1]
          summary_written [OF l sl f sf, THEN conjunct2] full_some full_none ltr_some ltr_none)
  qed
  have first_raises: "\<forall>err. combined_ltr_drivers st = Inl err \<longrightarrow>
      fst (generate_outputs TS st) = Inl err \<and> writes (snd (generate_outputs TS st)) = []"
    using writes_first_raises by blast
  have first_report_raises: "\<forall>ltr err. combined_ltr_drivers st = Inr ltr \<and> surveys_included ltr = Inl err \<longrightarrow>
      fst (generate_outputs TS st) = Inl err \<and>
      writes (snd (generate_outputs TS st)) =
        (case ltr of
           None \<Rightarrow> []
         | Some c \<Rightarrow> [(archive_file ''Combined_LTR_Drivers_'' TS, Frame c),
                       (current_file ''combined_ltr_drivers.csv'', Frame c)])"
    using writes_first_report_raises by blast
  have second_raises: "\<forall>ltr err. combined_ltr_drivers st = Inr ltr \<and> surveys_included ltr = Inr () \<and>
        combined_all_data st = Inl err \<longrightarrow>
      fst (generate_outputs TS st) = Inl err \<and>
      writes (snd (generate_outputs TS st)) =
        (case ltr of
           None \<Rightarrow> []
         | Some c \<Rightarrow> [(archive_file ''Combined_LTR_Drivers_'' TS, Frame c),
                       (current_file ''combined_ltr_drivers.csv'', Frame c)])"
    using writes_second_raises by blast
  have second_report_raises: "\<forall>ltr full err. combined_ltr_drivers st = Inr ltr \<and> surveys_included ltr = Inr () \<and>
        combined_all_data st = Inr full \<and> surveys_included full = Inl err \<longrightarrow>
      fst (generate_outputs TS st) = Inl err \<and>
      writes (snd (generate_outputs TS st)) =
        (case ltr of
           None \<Rightarrow> []
         | Some c \<Rightarrow> [(archive_file ''Combined_LTR_Drivers_'' TS, Frame c),
                       (current_file ''combined_ltr_drivers.csv'', Frame c)]) @
        (case full of
           None \<Rightarrow> []
         | Some c \<Rightarrow> [(archive_file ''Combined_All_Surveys_'' TS, Frame c),
                       (current_file ''combined_all_surveys.csv'', Frame c)])"
    using writes_second_report_raises by blast
  have l_some: "\<forall>c. combined_ltr_drivers st = Inr (Some c) \<longleftrightarrow> nps_driver_data st \<noteq> [] \<and> pd_concat (nps_driver_data st) = Inr c"
    by (simp add: combined_ltr_drivers_def combine_if_any_Some)
  have l_none: "combined_ltr_drivers st = Inr None \<longleftrightarrow> nps_driver_data st = []"
    by (simp add: combined_ltr_drivers_def combine_if_any_None)
  have l_raises: "\<forall>err. combined_ltr_drivers st = Inl err \<longleftrightarrow> nps_driver_data st \<noteq> [] \<and> pd_concat (nps_driver_data st) = Inl err"
    by (simp add: combined_ltr_drivers_def combine_if_any_Inl)
  have f_some: "\<forall>c. combined_all_data st = Inr (Some c) \<longleftrightarrow> all_survey_data st \<noteq> [] \<and> pd_concat (all_survey_data st) = Inr c"
    by (simp add: combined_all_data_def combine_if_any_Some)
  have f_none: "combined_all_data st = Inr None \<longleftrightarrow> all_survey_data st = []"
    by (simp add: combined_all_data_def combine_if_any_None)
  have f_raises: "\<forall>err. combined_all_data st = Inl err \<longleftrightarrow> all_survey_data st \<noteq> [] \<and> pd_concat (all_survey_data st) = Inl err"
    by (simp add: combined_all_data_def combine_if_any_Inl)
  have ret: "(\<forall>d \<in> set (nps_driver_data st) \<union> set (all_survey_data st).
        distinct (columns d) \<and> ''Survey_Name'' \<in> set (columns d)) \<longrightarrow>
      (\<exists>ltr full. combined_ltr_drivers st = Inr ltr \<and> surveys_included ltr = Inr () \<and>
        combined_all_data st = Inr full \<and> surveys_included full = Inr ())"
    using combining_returns by blast
  show ?thesis
    by (intro conjI written_paths_subset others returned first_raises first_report_raises second_raises second_report_raises l_some l_none l_raises f_some f_none f_raises surveys_included_iff [THEN conjunct1] surveys_included_iff [THEN conjunct2] ret)
qed

theorem outputs_written_directly_twice_witness:
  "combined_ltr_drivers first_run = Inr (Some (hd (nps_driver_data first_run))) \<and>
   surveys_included (Some (hd (nps_driver_data first_run))) = Inr () \<and>
   combined_all_data first_run = Inr (Some (hd (all_survey_data first_run))) \<and>
   surveys_included (Some (hd (all_survey_data first_run))) = Inr () \<and>
   write_outputs ''20240101_120000'' first_run Map.empty (current_file ''combined_all_surveys.csv'') =
     Some (Frame (hd (all_survey_data first_run))) \<and>
   write_outputs ''20240101_120000'' first_run Map.empty
       (archive_file ''Combined_LTR_Drivers_'' ''20240101_120000'') =
     Some (Frame (hd (nps_driver_data first_run))) \<and>
   write_outputs ''20240101_120000'' first_run Map.empty (current_file ''processing_summary.csv'') =
     Some (Summary (processing_summary first_run)) \<and>
   combined_ltr_drivers second_run = Inr None \<and>
   surveys_included None = Inr () \<and>
   combined_all_data second_run = Inr None \<and>
   write_outputs ''20240101_120001'' second_run
       (write_outputs ''20240101_120000'' first_run Map.empty)
       (current_file ''combined_all_surveys.csv'') =
     write_outputs ''20240101_120000'' first_run Map.empty (current_file ''combined_all_surveys.csv'') \<and>
   write_outputs ''20240101_120001'' second_run
       (write_outputs ''20240101_120000'' first_run Map.empty)
       (current_file ''combined_ltr_drivers.csv'') =
     write_outputs ''20240101_120000'' first_run Map.empty (current_file ''combined_ltr_drivers.csv'') \<and>
   ''20240101_120000'' \<noteq> ''20240101_120001'' \<and>
   write_outputs ''20240101_120001'' second_run
       (write_outputs ''20240101_120000'' first_run Map.empty)
       (archive_file ''Processing_Summary_'' ''20240101_120000'') =
     write_outputs ''20240101_120000'' first_run Map.empty
       (archive_file ''Processing_Summary_'' ''20240101_120000'') \<and>
   list_all (\<lambda>d. distinct (columns d) \<and> ''Survey_Name'' \<in> set (columns d))
     (nps_driver_data first_run @ all_survey_data first_run) \<and>
   (\<exists>ltr full. combined_ltr_drivers first_run = Inr ltr \<and> surveys_included ltr = Inr () \<and>
      combined_all_data first_run = Inr full \<and> surveys_included full = Inr ()) \<and>
   combined_ltr_drivers repeated_ltr_label_run =
     Inl ''Reindexing only valid with uniquely valued Index objects'' \<and>
   fst (generate_outputs ''20240101_120000'' repeated_ltr_label_run) =
     Inl ''Reindexing only valid with uniquely valued Index objects'' \<and>
   writes (snd (generate_outputs ''20240101_120000'' repeated_ltr_label_run)) = [] \<and>
   combined_ltr_drivers bare_ltr_run = Inr (Some frame_1) \<and>
   surveys_included (Some frame_1) = Inl ''KeyError: Survey_Name'' \<and>
   fst (generate_outputs ''20240101_120000'' bare_ltr_run) = Inl ''KeyError: Survey_Name'' \<and>
   map fst (writes (snd (generate_outputs ''20240101_120000'' bare_ltr_run))) =
     [archive_file ''Combined_LTR_Drivers_'' ''20240101_120000'',
      current_file ''combined_ltr_drivers.csv''] \<and>
   combined_ltr_drivers repeated_label_run =
     Inr (Some \<lparr>columns = [''ResponseID'', ''NPS_Score'', ''Survey_Name'', ''Processed_Date''],
                rows = [[Text ''r1'', Num 8, Text ''survey_6'', Time 7],
                        [Text ''r1'', Num 9, Text ''survey_1'', Time 7],
                        [Text ''r2'', Num 3, Text ''survey_1'', Time 7]]\<rparr>) \<and>
   combined_all_data repeated_label_run =
     Inl ''Reindexing only valid with uniquely valued Index objects'' \<and>
   fst (generate_outputs ''20240101_120000'' repeated_label_run) =
     Inl ''Reindexing only valid with uniquely valued Index objects'' \<and>
   map fst (writes (snd (generate_outputs ''20240101_120000'' repeated_label_run))) =
     [archive_file ''Combined_LTR_Drivers_'' ''20240101_120000'',
      current_file ''combined_ltr_drivers.csv''] \<and>
   combined_ltr_drivers bare_full_run = Inr None \<and>
   combined_all_data bare_full_run = Inr (Some frame_3) \<and>
   surveys_included (Some frame_3) = Inl ''KeyError: Survey_Name'' \<and>
   fst (generate_outputs ''20240101_120000'' bare_full_run) = Inl ''KeyError: Survey_Name'' \<and>
   map fst (writes (snd (generate_outputs ''20240101_120000'' bare_full_run))) =
     [archive_file ''Combined_All_Surveys_'' ''20240101_120000'',
      current_file ''combined_all_surveys.csv'']"
proof -
  let ?fs1 = "write_outputs ''20240101_120000'' first_run Map.empty"
  note first = outputs_written_directly_twice [of "''20240101_120000''" first_run Map.empty]
  note second = outputs_written_directly_twice [of "''20240101_120001''" second_run ?fs1]
  note third = outputs_written_directly_twice [of "''20240101_120000''" repeated_ltr_label_run
      Map.empty]
  note fourth = outputs_written_directly_twice [of "''20240101_120000''" bare_ltr_run Map.empty]
  note fifth = outputs_written_directly_twice [of "''20240101_120000''" repeated_label_run
      Map.empty]
  note sixth = outputs_written_directly_twice [of "''20240101_120000''" bare_full_run Map.empty]
  note l1 = example_runs [THEN conjunct1]
  note sl1 = example_runs [THEN conjunct2, THEN conjunct1]
  note f1 = example_runs [THEN conjunct2, THEN conjunct2, THEN conjunct1]
  note sf1 = example_runs [THEN conjunct2, THEN conjunct2, THEN conjunct2, THEN conjunct1]
  note l2 = example_runs [THEN conjunct2, THEN conjunct2, THEN conjunct2, THEN conjunct2, THEN conjunct1]
  note s2 = example_runs [THEN conjunct2, THEN conjunct2, THEN conjunct2, THEN conjunct2, THEN conjunct2, THEN conjunct1]
  note f2 = example_runs [THEN conjunct2, THEN conjunct2, THEN conjunct2, THEN conjunct2, THEN conjunct2, THEN conjunct2, THEN conjunct1]
  note ts = example_runs [THEN conjunct2, THEN conjunct2, THEN conjunct2, THEN conjunct2, THEN conjunct2, THEN conjunct2, THEN conjunct2, THEN conjunct1]
  note dist = example_runs [THEN conjunct2, THEN conjunct2, THEN conjunct2, THEN conjunct2, THEN conjunct2, THEN conjunct2, THEN conjunct2, THEN conjunct2]
  note l3 = example_raising_runs [THEN conjunct1]
  note l5 = example_raising_runs [THEN conjunct2, THEN conjunct1]
  note sl5 = example_raising_runs [THEN conjunct2, THEN conjunct2, THEN conjunct1]
  note f5 = example_raising_runs [THEN conjunct2, THEN conjunct2, THEN conjunct2]
  note l4 = example_bare_runs [THEN conjunct1]
  note sl4 = example_bare_runs [THEN conjunct2, THEN conjunct1]
  note l6 = example_bare_runs [THEN conjunct2, THEN conjunct2, THEN conjunct1]
  note f6 = example_bare_runs [THEN conjunct2, THEN conjunct2, THEN conjunct2, THEN conjunct1]
  note sf6 = example_bare_runs [THEN conjunct2, THEN conjunct2, THEN conjunct2, THEN conjunct2]
  have name: "''Processing_Summary_'' \<in>
      {''Combined_LTR_Drivers_'', ''Combined_All_Surveys_'', ''Processing_Summary_''}"
    by blast
  have h1: "combined_ltr_drivers first_run = Inr (Some (hd (nps_driver_data first_run))) \<and>
      surveys_included (Some (hd (nps_driver_data first_run))) = Inr () \<and>
      combined_all_data first_run = Inr (Some (hd (all_survey_data first_run))) \<and>
      surveys_included (Some (hd (all_survey_data first_run))) = Inr ()"
    by (intro conjI l1 sl1 f1 sf1)
  have h2: "combined_ltr_drivers second_run = Inr None \<and> surveys_included None = Inr () \<and>
      combined_all_data second_run = Inr None \<and> surveys_included None = Inr ()"
    by (intro conjI l2 s2 f2)
  note r1 = first [THEN conjunct2, THEN conjunct2, THEN conjunct1, rule_format, OF h1]
  note r2 = second [THEN conjunct2, THEN conjunct2, THEN conjunct1, rule_format, OF h2]
  note w_summary = r1 [THEN conjunct2, THEN conjunct2, THEN conjunct1]
  note w_full = r1 [THEN conjunct2, THEN conjunct2, THEN conjunct2, THEN conjunct1, rule_format,
      OF refl, THEN conjunct2]
  note w_ltr = r1 [THEN conjunct2, THEN conjunct2, THEN conjunct2, THEN conjunct2, THEN conjunct2,
      THEN conjunct1, rule_format, OF refl, THEN conjunct1]
  note o_full = r2 [THEN conjunct2, THEN conjunct2, THEN conjunct2, THEN conjunct2, THEN conjunct1,
      THEN mp, OF refl, THEN conjunct2]
  note o_ltr = r2 [THEN conjunct2, THEN conjunct2, THEN conjunct2, THEN conjunct2, THEN conjunct2,
      THEN conjunct2, THEN mp, OF refl, THEN conjunct2]
  note kept = second [THEN conjunct2, THEN conjunct1, rule_format, OF conjI, OF ts name]
  have "\<forall>d \<in> set (nps_driver_data first_run) \<union> set (all_survey_data first_run).
          distinct (columns d) \<and> ''Survey_Name'' \<in> set (columns d)"
    using dist by (simp add: list_all_iff ball_Un)
  note ret = first [THEN conjunct2, THEN conjunct2, THEN conjunct2, THEN conjunct2, THEN conjunct2, THEN conjunct2, THEN conjunct2, THEN conjunct2, THEN conjunct2, THEN conjunct2, THEN conjunct2, THEN conjunct2, THEN conjunct2, THEN conjunct2, THEN conjunct2, THEN mp, OF this]
  note r3 = third [THEN conjunct2, THEN conjunct2, THEN conjunct2, THEN conjunct1, rule_format, OF l3]
  note r4 = fourth [THEN conjunct2, THEN conjunct2, THEN conjunct2, THEN conjunct2, THEN conjunct1, rule_format, OF conjI, OF l4 sl4]
  have h5: "combined_ltr_drivers repeated_label_run =
      Inr (Some \<lparr>columns = [''ResponseID'', ''NPS_Score'', ''Survey_Name'', ''Processed_Date''],
                 rows = [[Text ''r1'', Num 8, Text ''survey_6'', Time 7],
                         [Text ''r1'', Num 9, Text ''survey_1'', Time 7],
                         [Text ''r2'', Num 3, Text ''survey_1'', Time 7]]\<rparr>) \<and>
      surveys_included
        (Some \<lparr>columns = [''ResponseID'', ''NPS_Score'', ''Survey_Name'', ''Processed_Date''],
               rows = [[Text ''r1'', Num 8, Text ''survey_6'', Time 7],
                       [Text ''r1'', Num 9, Text ''survey_1'', Time 7],
                       [Text ''r2'', Num 3, Text ''survey_1'', Time 7]]\<rparr>) = Inr () \<and>
      combined_all_data repeated_label_run =
        Inl ''Reindexing only valid with uniquely valued Index objects''"
    by (intro conjI l5 sl5 f5)
  note r5 = fifth [THEN conjunct2, THEN conjunct2, THEN conjunct2, THEN conjunct2, THEN conjunct2, THEN conjunct1, rule_format, OF h5]
  have h6: "combined_ltr_drivers bare_full_run = Inr None \<and> surveys_included None = Inr () \<and>
      combined_all_data bare_full_run = Inr (Some frame_3) \<and>
      surveys_included (Some frame_3) = Inl ''KeyError: Survey_Name''"
    by (intro conjI l6 s2 f6 sf6)
  note r6 = sixth [THEN conjunct2, THEN conjunct2, THEN conjunct2, THEN conjunct2, THEN conjunct2, THEN conjunct2, THEN conjunct1, rule_format, OF h6]
  have w4: "map fst (writes (snd (generate_outputs ''20240101_120000'' bare_ltr_run))) =
     [archive_file ''Combined_LTR_Drivers_'' ''20240101_120000'',
      current_file ''combined_ltr_drivers.csv'']"
    unfolding r4 [THEN conjunct2] by simp
  have w5: "map fst (writes (snd (generate_outputs ''20240101_120000'' repeated_label_run))) =
     [archive_file ''Combined_LTR_Drivers_'' ''20240101_120000'',
      current_file ''combined_ltr_drivers.csv'']"
    unfolding r5 [THEN conjunct2] by simp
  have w6: "map fst (writes (snd (generate_outputs ''20240101_120000'' bare_full_run))) =
     [archive_file ''Combined_All_Surveys_'' ''20240101_120000'',
      current_file ''combined_all_surveys.csv'']"
    unfolding r6 [THEN conjunct2] by simp
  show ?thesis
    by (intro conjI l1 sl1 f1 sf1 w_full w_ltr w_summary l2 s2 f2 o_full o_ltr ts kept dist ret
        l3 r3 [THEN conjunct1] r3 [THEN conjunct2] l4 sl4 r4 [THEN conjunct1] w4
        l5 f5 r5 [THEN conjunct1] w5 l6 f6 sf6 r6 [THEN conjunct1] w6)
qed

section \<open>The mapper of the specification: effective mappings\<close>

lemma map_of_filter_key:
  "map_of (filter (\<lambda>(k, v). P k) xs) c = (if P c then map_of xs c else None)"
  by (induction xs) auto

lemma map_of_effective:
  "map_of (get_effective_mappings cfg s present incl) c =
     (case map_of (get_explicit_mappings cfg s) c of
        Some d \<Rightarrow> Some d
      | None \<Rightarrow> if incl \<and> c \<in> set present then map_of (default_mappings cfg) c else None)"
proof (cases "map_of (get_explicit_mappings cfg s) c")
  case None
  then have "c \<notin> set (map fst (get_explicit_mappings cfg s))"
    by (simp add: map_of_eq_None_iff)
  then show ?thesis
    using None
    by (simp add: get_effective_mappings_def applied_defaults_def map_add_def map_of_filter_key)
next
  case (Some d)
  then show ?thesis
    by (simp add: get_effective_mappings_def map_add_def)
qed

lemma example_effective:
  "map_of (get_explicit_mappings example_config ''survey_a'') ''NPS_Score'' = None \<and>
   map_of (get_explicit_mappings example_config ''survey_b'') ''NPS_Score'' =
     Some ''satisfaction_5_scale'' \<and>
   map_of (default_mappings example_config) ''NPS_Score'' = Some ''recommendation_10_scale''"
  by code_simp

text \<open>
  C7, on the mapper modelled from the specification. For every survey, list of present
  columns, \<open>include_defaults\<close> flag and column \<open>c\<close>: the effective mappings are the
  explicit mappings followed by the default rules that apply; a default rule for \<open>c\<close>
  applies if and only if \<open>c\<close> is present, \<open>c\<close> is not explicitly configured for the
  survey and \<open>include_defaults\<close> is true; and the dictionary that the effective mappings
  give \<open>c\<close> is the explicitly configured one when there is one, and otherwise the one of
  the default rule when the column is present and defaults are included.
\<close>

theorem effective_mappings_precedence:
  "map_of (get_effective_mappings cfg s present incl) c =
     (case map_of (get_explicit_mappings cfg s) c of
        Some d \<Rightarrow> Some d
      | None \<Rightarrow> if incl \<and> c \<in> set present then map_of (default_mappings cfg) c else None) \<and>
   ((c, d) \<in> set (applied_defaults cfg s present incl) \<longleftrightarrow>
      (c, d) \<in> set (default_mappings cfg) \<and> c \<in> set present \<and>
      c \<notin> fst ` set (get_explicit_mappings cfg s) \<and> incl) \<and>
   get_effective_mappings cfg s present incl =
     get_explicit_mappings cfg s @ applied_defaults cfg s present incl"
proof -
  have "(c, d) \<in> set (applied_defaults cfg s present incl) \<longleftrightarrow>
      (c, d) \<in> set (default_mappings cfg) \<and> c \<in> set present \<and>
      c \<notin> fst ` set (get_explicit_mappings cfg s) \<and> incl"
    by (auto simp: applied_defaults_def)
  then show ?thesis
    using map_of_effective [of cfg s present incl c]
    by (simp add: get_effective_mappings_def)
qed

theorem effective_mappings_precedence_witness:
  "map_of (get_explicit_mappings example_config ''survey_a'') ''NPS_Score'' = None \<and>
   map_of (get_effective_mappings example_config ''survey_a'' [''ResponseID'', ''NPS_Score''] True)
       ''NPS_Score'' = Some ''recommendation_10_scale'' \<and>
   map_of (get_effective_mappings example_config ''survey_a'' [''ResponseID'', ''NPS_Score''] False)
       ''NPS_Score'' = None \<and>
   map_of (get_effective_mappings example_config ''survey_a'' [''ResponseID''] True)
       ''NPS_Score'' = None \<and>
   map_of (get_explicit_mappings example_config ''survey_b'') ''NPS_Score'' =
     Some ''satisfaction_5_scale'' \<and>
   map_of (get_effective_mappings example_config ''survey_b'' [''ResponseID'', ''NPS_Score''] True)
       ''NPS_Score'' = Some ''satisfaction_5_scale''"
proof -
  note ex = example_effective
  have a: "map_of (get_effective_mappings example_config ''survey_a'' [''ResponseID'', ''NPS_Score''] True)
       ''NPS_Score'' = Some ''recommendation_10_scale''"
    using effective_mappings_precedence [of example_config "''survey_a''"
        "[''ResponseID'', ''NPS_Score'']" True "''NPS_Score''", THEN conjunct1] ex
    by simp
  have b: "map_of (get_effective_mappings example_config ''survey_a'' [''ResponseID'', ''NPS_Score''] False)
       ''NPS_Score'' = None"
    using effective_mappings_precedence [of example_config "''survey_a''"
        "[''ResponseID'', ''NPS_Score'']" False "''NPS_Score''", THEN conjunct1] ex
    by simp
  have c: "map_of (get_effective_mappings example_config ''survey_a'' [''ResponseID''] True)
       ''NPS_Score'' = None"
    using effective_mappings_precedence [of example_config "''survey_a''"
        "[''ResponseID'']" True "''NPS_Score''", THEN conjunct1] ex
    by simp
  have d: "map_of (get_effective_mappings example_config ''survey_b'' [''ResponseID'', ''NPS_Score''] True)
       ''NPS_Score'' = Some ''satisfaction_5_scale''"
    using effective_mappings_precedence [of example_config "''survey_b''"
        "[''ResponseID'', ''NPS_Score'']" True "''NPS_Score''", THEN conjunct1] ex
    by simp
  show ?thesis
    by (intro conjI ex [THEN conjunct1] a b c ex [THEN conjunct2, THEN conjunct1] d)
qed

section \<open>The mapper of the specification: the transformation\<close>

lemma collect_Inr:
  "collect rs = Inr xs \<Longrightarrow> length xs = length rs \<and> (\<forall>i < length rs. rs ! i = Inr (xs ! i))"
proof (induction rs arbitrary: xs rule: collect.induct)
  case 1
  then show ?case by simp
next
  case (2 err rs)
  then show ?case by simp
next
  case (3 x rs)
  then obtain ys where ys: "collect rs = Inr ys" "xs = x # ys"
    by (auto split: sum.splits)
  then have "length ys = length rs \<and> (\<forall>i < length rs. rs ! i = Inr (ys ! i))"
    using "3.IH" by simp
  then show ?case
    using ys by (auto simp: nth_Cons split: nat.splits)
qed

lemma length_map_row: "length (map_row ds vs) = length vs"
  by (induction ds vs rule: map_row.induct) simp_all

lemma nth_map_row:
  "i < length ds \<Longrightarrow> i < length vs \<Longrightarrow>
     map_row ds vs ! i = (case ds ! i of None \<Rightarrow> vs ! i | Some d \<Rightarrow> map_value d (vs ! i))"
  by (induction ds vs arbitrary: i rule: map_row.induct)
     (auto simp: nth_Cons split: nat.splits option.splits)

lemma map_value_idem: "map_value d (map_value d v) = map_value d v"
  by (cases v) (simp_all split: option.split)

lemma map_row_idem: "map_row ds (map_row ds vs) = map_row ds vs"
  by (induction ds vs rule: map_row.induct) (simp_all add: map_value_idem)

lemma column_dictionary_cases:
  "column_dictionary store effective c = Inr dopt \<Longrightarrow>
     (case map_of effective c of
        None \<Rightarrow> dopt = None
      | Some dn \<Rightarrow> \<exists>d. store_get store dn = Inr d \<and> dopt = Some d)"
  by (auto simp: column_dictionary_def split: option.splits sum.splits)

lemma example_transformation:
  "apply_transformation example_store example_config True frame_a ''survey_a'' =
     Inr transformed_frame_a"
  by code_simp

lemma example_satisfaction:
  "store_get example_store ''satisfaction_5_scale'' =
     Inr [(''very dissatisfied'', 1), (''dissatisfied'', 2), (''neutral'', 3),
          (''satisfied'', 4), (''very satisfied'', 5)] \<and>
   map (map_value [(''very dissatisfied'', 1), (''dissatisfied'', 2), (''neutral'', 3),
          (''satisfied'', 4), (''very satisfied'', 5)])
     [Text ''Very Satisfied'', Text ''  dissatisfied '', Text ''Somewhat OK''] =
     [Num 5, Num 2, Text ''Somewhat OK'']"
  by code_simp

lemma example_lookups:
  "dictionary_lookup [(''very dissatisfied'', 1), (''dissatisfied'', 2), (''neutral'', 3),
          (''satisfied'', 4), (''very satisfied'', 5)] ''  dissatisfied '' = Some 2 \<and>
   dictionary_lookup [(''very dissatisfied'', 1), (''dissatisfied'', 2), (''neutral'', 3),
          (''satisfied'', 4), (''very satisfied'', 5)] ''Somewhat OK'' = None"
  by code_simp

lemma example_cell:
  "(1::nat) < length (rows frame_a) \<and> (1::nat) < length (columns frame_a) \<and>
   (1::nat) < length (rows frame_a ! 1)"
  by code_simp

text \<open>
  C3, on the mapper modelled from the specification. When the transformation of a
  dataset returns, the result has the columns and the number of rows of the dataset;
  every cell of a column that the effective mappings give a dictionary is the value that
  the per-value rule gives the original cell with that dictionary, and every other cell
  is the original cell. The per-value rule leaves a missing value as it is; it trims and
  case-folds a text and looks it up in the dictionary, whose keys are compared under the
  same normalization; on a hit the cell becomes the dictionary's number and on a miss the
  text stays as it was.
\<close>

theorem transformation_per_value_rule:
  assumes "apply_transformation store cfg incl df s = Inr df'"
  shows "columns df' = columns df \<and> length (rows df') = length (rows df) \<and>
     (\<forall>j i. j < length (rows df) \<and> i < length (columns df) \<and> i < length (rows df ! j) \<longrightarrow>
        (case map_of (get_effective_mappings cfg s (columns df) incl) (columns df ! i) of
           None \<Rightarrow> rows df' ! j ! i = rows df ! j ! i
         | Some dn \<Rightarrow> \<exists>d. store_get store dn = Inr d \<and>
                          rows df' ! j ! i = map_value d (rows df ! j ! i))) \<and>
     (\<forall>d. map_value d NaN = NaN) \<and>
     (\<forall>d text n. dictionary_lookup d text = Some n \<longrightarrow> map_value d (Text text) = Num n) \<and>
     (\<forall>d text. dictionary_lookup d text = None \<longrightarrow> map_value d (Text text) = Text text) \<and>
     (\<forall>d text. dictionary_lookup d text =
        map_of (map (\<lambda>(k, n). (normalize k, n)) d) (map casefold_char (strip text)))"
proof -
  let ?eff = "get_effective_mappings cfg s (columns df) incl"
  obtain ds where ds: "collect (map (column_dictionary store ?eff) (columns df)) = Inr ds"
    and df': "df' = df\<lparr>rows := map (map_row ds) (rows df)\<rparr>"
    using assms by (auto simp: apply_transformation_def Let_def split: sum.splits)
  have len: "length ds = length (columns df)"
    and res: "\<forall>i < length (columns df). column_dictionary store ?eff (columns df ! i) = Inr (ds ! i)"
    using collect_Inr [OF ds] by auto
  have cells: "\<forall>j i. j < length (rows df) \<and> i < length (columns df) \<and> i < length (rows df ! j) \<longrightarrow>
        (case map_of ?eff (columns df ! i) of
           None \<Rightarrow> rows df' ! j ! i = rows df ! j ! i
         | Some dn \<Rightarrow> \<exists>d. store_get store dn = Inr d \<and>
                          rows df' ! j ! i = map_value d (rows df ! j ! i))"
  proof (intro allI impI)
    fix j i
    assume h: "j < length (rows df) \<and> i < length (columns df) \<and> i < length (rows df ! j)"
    then have cell: "rows df' ! j ! i =
        (case ds ! i of None \<Rightarrow> rows df ! j ! i | Some d \<Rightarrow> map_value d (rows df ! j ! i))"
      using len by (simp add: df' nth_map_row)
    have "column_dictionary store ?eff (columns df ! i) = Inr (ds ! i)"
      using h res by blast
    from column_dictionary_cases [OF this] cell
    show "case map_of ?eff (columns df ! i) of
           None \<Rightarrow> rows df' ! j ! i = rows df ! j ! i
         | Some dn \<Rightarrow> \<exists>d. store_get store dn = Inr d \<and>
                          rows df' ! j ! i = map_value d (rows df ! j ! i)"
      by (auto split: option.splits)
  qed
  have shape: "columns df' = columns df \<and> length (rows df') = length (rows df)"
    by (simp add: df')
  have rule: "(\<forall>d. map_value d NaN = NaN) \<and>
     (\<forall>d text n. dictionary_lookup d text = Some n \<longrightarrow> map_value d (Text text) = Num n) \<and>
     (\<forall>d text. dictionary_lookup d text = None \<longrightarrow> map_value d (Text text) = Text text) \<and>
     (\<forall>d text. dictionary_lookup d text =
        map_of (map (\<lambda>(k, n). (normalize k, n)) d) (map casefold_char (strip text)))"
    by (simp add: dictionary_lookup_def normalize_def)
  show ?thesis using shape cells rule by blast
qed

theorem transformation_per_value_rule_witness:
  "apply_transformation example_store example_config True frame_a ''survey_a'' =
     Inr transformed_frame_a \<and>
   columns transformed_frame_a = columns frame_a \<and>
   length (rows transformed_frame_a) = length (rows frame_a) \<and>
   (1::nat) < length (rows frame_a) \<and> (1::nat) < length (columns frame_a) \<and>
   (1::nat) < length (rows frame_a ! 1) \<and>
   (case map_of (get_effective_mappings example_config ''survey_a'' (columns frame_a) True)
           (columns frame_a ! 1) of
      None \<Rightarrow> rows transformed_frame_a ! 1 ! 1 = rows frame_a ! 1 ! 1
    | Some dn \<Rightarrow> \<exists>d. store_get example_store dn = Inr d \<and>
                     rows transformed_frame_a ! 1 ! 1 = map_value d (rows frame_a ! 1 ! 1)) \<and>
   dictionary_lookup [(''very dissatisfied'', 1), (''dissatisfied'', 2), (''neutral'', 3),
          (''satisfied'', 4), (''very satisfied'', 5)] ''  dissatisfied '' = Some 2 \<and>
   map_value [(''very dissatisfied'', 1), (''dissatisfied'', 2), (''neutral'', 3),
          (''satisfied'', 4), (''very satisfied'', 5)] (Text ''  dissatisfied '') = Num 2 \<and>
   dictionary_lookup [(''very dissatisfied'', 1), (''dissatisfied'', 2), (''neutral'', 3),
          (''satisfied'', 4), (''very satisfied'', 5)] ''Somewhat OK'' = None \<and>
   map_value [(''very dissatisfied'', 1), (''dissatisfied'', 2), (''neutral'', 3),
          (''satisfied'', 4), (''very satisfied'', 5)] (Text ''Somewhat OK'') = Text ''Somewhat OK'' \<and>
   map (map_value [(''very dissatisfied'', 1), (''dissatisfied'', 2), (''neutral'', 3),
          (''satisfied'', 4), (''very satisfied'', 5)])
     [Text ''Very Satisfied'', Text ''  dissatisfied '', Text ''Somewhat OK''] =
     [Num 5, Num 2, Text ''Somewhat OK'']"
proof -
  note rule = transformation_per_value_rule [OF example_transformation]
  note shape1 = rule [THEN conjunct1]
  note shape2 = rule [THEN conjunct2, THEN conjunct1]
  note cell = rule [THEN conjunct2, THEN conjunct2, THEN conjunct1, rule_format, OF example_cell]
  note hit = rule [THEN conjunct2, THEN conjunct2, THEN conjunct2, THEN conjunct2, THEN conjunct1,
      rule_format, OF example_lookups [THEN conjunct1]]
  note miss = rule [THEN conjunct2, THEN conjunct2, THEN conjunct2, THEN conjunct2, THEN conjunct2,
      THEN conjunct1, rule_format, OF example_lookups [THEN conjunct2]]
  show ?thesis
    by (intro conjI example_transformation shape1 shape2 example_cell [THEN conjunct1]
        example_cell [THEN conjunct2, THEN conjunct1] example_cell [THEN conjunct2, THEN conjunct2]
        cell example_lookups [THEN conjunct1] hit example_lookups [THEN conjunct2] miss
        example_satisfaction [THEN conjunct2])
qed

text \<open>
  C9, on the mapper modelled from the specification. For every dataset and mapping
  configuration, when the transformation of the dataset returns a dataset, the
  transformation of that result, with the same configuration, returns the same result.
\<close>

theorem transformation_idempotent:
  assumes "apply_transformation store cfg incl df s = Inr df'"
  shows "apply_transformation store cfg incl df' s = Inr df'"
proof -
  let ?eff = "get_effective_mappings cfg s (columns df) incl"
  obtain ds where ds: "collect (map (column_dictionary store ?eff) (columns df)) = Inr ds"
    and df': "df' = df\<lparr>rows := map (map_row ds) (rows df)\<rparr>"
    using assms by (auto simp: apply_transformation_def Let_def split: sum.splits)
  have cols: "columns df' = columns df" by (simp add: df')
  have "apply_transformation store cfg incl df' s = Inr (df'\<lparr>rows := map (map_row ds) (rows df')\<rparr>)"
    using ds by (simp add: apply_transformation_def Let_def cols)
  also have "df'\<lparr>rows := map (map_row ds) (rows df')\<rparr> = df'"
    by (simp add: df' map_row_idem)
  finally show ?thesis .
qed

theorem transformation_idempotent_witness:
  "apply_transformation example_store example_config True frame_a ''survey_a'' =
     Inr transformed_frame_a \<and>
   apply_transformation example_store example_config True transformed_frame_a ''survey_a'' =
     Inr transformed_frame_a \<and>
   map_of (get_effective_mappings example_config ''survey_a'' (columns frame_a) True) ''NPS_Score'' =
     Some ''recommendation_10_scale''"
proof -
  have "map_of (get_effective_mappings example_config ''survey_a'' (columns frame_a) True)
      ''NPS_Score'' = Some ''recommendation_10_scale''"
    by code_simp
  then show ?thesis
    using example_transformation transformation_idempotent [OF example_transformation]
    by (intro conjI)
qed

end
